theory Spec2Isabelle
  imports Main "HOL-Library.Log_Nat"
begin

section \<open>JavaScript values used by the plugin\<close>

subsection \<open>Strings\<close>

text \<open>
  Strings are byte lists. \<open>toLowerCase\<close> and \<open>toUpperCase\<close> are modelled on ASCII,
  which covers token symbols, chain names and hex addresses.
\<close>

definition upper_letters :: string where
  "upper_letters = ''ABCDEFGHIJKLMNOPQRSTUVWXYZ''"

definition lower_letters :: string where
  "lower_letters = ''abcdefghijklmnopqrstuvwxyz''"

definition lower_char :: "char \<Rightarrow> char" where
  "lower_char c = (case map_of (zip upper_letters lower_letters) c of Some d \<Rightarrow> d | None \<Rightarrow> c)"

definition upper_char :: "char \<Rightarrow> char" where
  "upper_char c = (case map_of (zip lower_letters upper_letters) c of Some d \<Rightarrow> d | None \<Rightarrow> c)"

definition toLowerCase :: "string \<Rightarrow> string" where
  "toLowerCase s = map lower_char s"

definition toUpperCase :: "string \<Rightarrow> string" where
  "toUpperCase s = map upper_char s"

definition startsWith :: "string \<Rightarrow> string \<Rightarrow> bool" where
  "startsWith s p = (take (length p) s = p)"

text \<open>
  Stripping of ASCII white space at both ends; on ASCII strings this is what
  \<open>String.prototype.trim\<close> does.
\<close>

definition is_space :: "char \<Rightarrow> bool" where
  "is_space c = (c \<in> set [CHR '' '', CHR 0x09, CHR 0x0A, CHR 0x0B, CHR 0x0C, CHR 0x0D])"

definition ascii_trim :: "string \<Rightarrow> string" where
  "ascii_trim s = rev (dropWhile is_space (rev (dropWhile is_space s)))"

definition includes_dot :: "string \<Rightarrow> bool" where
  "includes_dot s = (CHR ''.'' \<in> set s)"

subsection \<open>Numbers\<close>

text \<open>
  A JavaScript \<open>number\<close> is an IEEE-754 double: a finite value (kept as the rational it
  denotes), \<open>NaN\<close> or an infinity. The sign of zero is not kept; nothing in the plugin
  observes it.
\<close>

datatype number = Num rat | NaN | PosInf | NegInf

definition pow2 :: "int \<Rightarrow> rat" where
  "pow2 e = (if 0 \<le> e then 2 ^ nat e else 1 / 2 ^ nat (- e))"

text \<open>The exponent \<open>e\<close> with \<open>2^e \<le> a < 2^(e+1)\<close>, for \<open>a > 0\<close>.\<close>

definition binade :: "rat \<Rightarrow> int" where
  "binade a =
     (if 1 \<le> a then int (floorlog 2 (nat \<lfloor>a\<rfloor>)) - 1
      else - int (floorlog 2 (nat \<lceil>1 / a\<rceil> - 1)))"

definition round_half_even :: "rat \<Rightarrow> int" where
  "round_half_even q =
     (let f = \<lfloor>q\<rfloor>; r = q - of_int f in
      if r < 1 / 2 then f else if 1 / 2 < r then f + 1 else if even f then f else f + 1)"

text \<open>
  Rounding of an exact result to the nearest double (53-bit significand, ties to even,
  gradual underflow below \<open>2^-1022\<close>, overflow to an infinity).
\<close>

definition round_double :: "rat \<Rightarrow> number" where
  "round_double x =
     (if x = 0 then Num 0
      else
        let a = \<bar>x\<bar>;
            e = max (binade a) (- 1022);
            u = pow2 (e - 52);
            y = of_int (round_half_even (a / u)) * u
        in if pow2 1024 \<le> y then (if 0 < x then PosInf else NegInf)
           else Num (if 0 < x then y else - y))"

fun js_neg :: "number \<Rightarrow> number" where
  "js_neg (Num a) = Num (- a)"
| "js_neg NaN = NaN"
| "js_neg PosInf = NegInf"
| "js_neg NegInf = PosInf"

fun js_add :: "number \<Rightarrow> number \<Rightarrow> number" where
  "js_add (Num a) (Num b) = round_double (a + b)"
| "js_add NaN _ = NaN"
| "js_add _ NaN = NaN"
| "js_add PosInf NegInf = NaN"
| "js_add NegInf PosInf = NaN"
| "js_add PosInf _ = PosInf"
| "js_add NegInf _ = NegInf"
| "js_add _ PosInf = PosInf"
| "js_add _ NegInf = NegInf"

definition js_sub :: "number \<Rightarrow> number \<Rightarrow> number" where
  "js_sub x y = js_add x (js_neg y)"

fun js_mul :: "number \<Rightarrow> number \<Rightarrow> number" where
  "js_mul (Num a) (Num b) = round_double (a * b)"
| "js_mul NaN _ = NaN"
| "js_mul _ NaN = NaN"
| "js_mul (Num a) PosInf = (if a = 0 then NaN else if 0 < a then PosInf else NegInf)"
| "js_mul (Num a) NegInf = (if a = 0 then NaN else if 0 < a then NegInf else PosInf)"
| "js_mul PosInf (Num b) = (if b = 0 then NaN else if 0 < b then PosInf else NegInf)"
| "js_mul NegInf (Num b) = (if b = 0 then NaN else if 0 < b then NegInf else PosInf)"
| "js_mul PosInf PosInf = PosInf"
| "js_mul NegInf NegInf = PosInf"
| "js_mul PosInf NegInf = NegInf"
| "js_mul NegInf PosInf = NegInf"

text \<open>\<open>x < y\<close> and \<open>x > y\<close> on numbers: every comparison with \<open>NaN\<close> is false.\<close>

fun js_lt :: "number \<Rightarrow> number \<Rightarrow> bool" where
  "js_lt (Num a) (Num b) = (a < b)"
| "js_lt NaN _ = False"
| "js_lt _ NaN = False"
| "js_lt NegInf NegInf = False"
| "js_lt NegInf _ = True"
| "js_lt PosInf _ = False"
| "js_lt (Num a) PosInf = True"
| "js_lt (Num a) NegInf = False"

definition js_gt :: "number \<Rightarrow> number \<Rightarrow> bool" where
  "js_gt x y = js_lt y x"

definition js_le :: "number \<Rightarrow> number \<Rightarrow> bool" where
  "js_le x y = (js_lt x y \<or> (x = y \<and> x \<noteq> NaN))"

text \<open>Truthiness of a number: \<open>0\<close> and \<open>NaN\<close> are falsy.\<close>

definition truthy_number :: "number \<Rightarrow> bool" where
  "truthy_number x = (x \<noteq> Num 0 \<and> x \<noteq> NaN)"

fun Math_floor :: "number \<Rightarrow> number" where
  "Math_floor (Num a) = Num (of_int \<lfloor>a\<rfloor>)"
| "Math_floor x = x"

subsection \<open>Errors\<close>

text \<open>
  Every \<open>throw new Error(...)\<close> of the source is one constructor, named after the error
  kind; the comment gives the message. \<open>External\<close> is an exception raised by a
  collaborator (RPC client, ABI coder) that the plugin does not catch.
\<close>

datatype error =
    UnsupportedChain string          \<comment> \<open>Chain '...' is not supported\<close>
  | ChainNotRegistered               \<comment> \<open>Chain with that name not registered\<close>
  | TokenNotRegistered               \<comment> \<open>Token used not registered on the chain config\<close>
  | RouterNotConfigured              \<comment> \<open>Chain doesn't have uniswapV2Router contract on the config\<close>
  | UnsupportedToken string string   \<comment> \<open>Token ... is not supported on ...\<close>
  | TokensRequired                   \<comment> \<open>Both inputToken and outputToken are required\<close>
  | SameTokenSwap                    \<comment> \<open>Cannot swap the same token\<close>
  | MissingAmount                    \<comment> \<open>Amount is required\<close>
  | ZeroAmount                       \<comment> \<open>Amount must be greater than 0\<close>
  | NegativeAmount                   \<comment> \<open>Amount cannot be negative\<close>
  | InvalidSlippage                  \<comment> \<open>Slippage must be between 0 and 50 percent\<close>
  | QuoteUnavailable                 \<comment> \<open>Unable to calculate swap amounts. ...\<close>
  | SwapNotSubmitted                 \<comment> \<open>Swap transaction hash not received\<close>
  | MissingRecipient                 \<comment> \<open>To address is required\<close>
  | TransactionNotSubmitted          \<comment> \<open>Get transaction hash failed\<close>
  | AddressRequired                  \<comment> \<open>Address is required for getting balance\<close>
  | TokenNotSupported string         \<comment> \<open>Token ... is not supported.\<close>
  | EncryptionFailed string          \<comment> \<open>Failed to encrypt transaction: ...\<close>
  | RangeError                       \<comment> \<open>BigInt() of a non-integer number\<close>
  | TypeError                        \<comment> \<open>operation on undefined\<close>
  | InvalidAddressError              \<comment> \<open>the ABI coder's rejection of a value that is not an address\<close>
  | External string

text \<open>\<open>BigInt(x)\<close> of a number: only an integral finite value converts.\<close>

fun BigInt :: "number \<Rightarrow> error + int" where
  "BigInt (Num a) = (if of_int \<lfloor>a\<rfloor> = a then Inr \<lfloor>a\<rfloor> else Inl RangeError)"
| "BigInt _ = Inl RangeError"

text \<open>Division of bigints truncates toward zero (the divisor is never 0 here).\<close>

definition bigint_div :: "int \<Rightarrow> int \<Rightarrow> int" where
  "bigint_div a b = sgn a * sgn b * (\<bar>a\<bar> div \<bar>b\<bar>)"

subsection \<open>Values in address positions and object lookups\<close>

text \<open>
  Where the source expects an address string, three kinds of value occur at run time: a
  string; the promise returned by the \<open>async\<close> \<open>formatAddress\<close>, stored without
  \<open>await\<close> (kept with the string it resolves to); and a member that every plain object
  inherits from \<open>Object.prototype\<close>, returned by a property read under that name.
\<close>

datatype addr = Addr string | Promise string | Proto string

text \<open>
  The registry and each token table are plain objects indexed by a string. A read gives
  the own property when there is one; under one of the names below it gives the inherited
  member, which is truthy and not a string; otherwise \<open>undefined\<close>.
\<close>

definition Object_prototype_keys :: "string list" where
  "Object_prototype_keys =
     [''constructor'', ''__proto__'', ''hasOwnProperty'', ''isPrototypeOf'',
      ''propertyIsEnumerable'', ''toLocaleString'', ''toString'', ''valueOf'',
      ''__defineGetter__'', ''__defineSetter__'', ''__lookupGetter__'', ''__lookupSetter__'']"

datatype 'a property = Own 'a | Inherited | Absent

definition object_get :: "(string \<rightharpoonup> 'a) \<Rightarrow> string \<Rightarrow> 'a property" where
  "object_get obj key =
     (case obj key of
        Some v \<Rightarrow> Own v
      | None \<Rightarrow> if key \<in> set Object_prototype_keys then Inherited else Absent)"

section \<open>Chain registry and wallet provider\<close>

record ChainConfig =
  chainId :: string
  nativeToken :: string
  rpc :: string
  explorerUrl :: string
  tokens :: "string \<rightharpoonup> string"
  uniswapV2Router :: string

datatype BiteConfig = manual | automatic

text \<open>
  The provider holds the account address, the process-wide encryption mode and the merged
  chain table of its \<open>PluginConfigManager\<close>.
\<close>

record WalletProvider =
  account_address :: string
  biteConfig :: BiteConfig
  chains :: "string \<rightharpoonup> ChainConfig"

text \<open>
  Functions of the JavaScript runtime and of the viem library that the plugin calls.
  They are not part of the repository and are taken as parameters: \<open>parseFloat\<close>,
  \<open>String.prototype.trim\<close>, the conversion \<open>(+s).toString()\<close> of a chain id string to a
  number and back, and viem's \<open>parseUnits\<close>, \<open>parseEther\<close>, \<open>formatUnits\<close> and
  \<open>isAddress\<close>.
\<close>

record library =
  parseFloat :: "string \<Rightarrow> number"
  trim :: "string \<Rightarrow> string"
  Number_toString :: "string \<Rightarrow> string"
  parseUnits :: "string \<Rightarrow> nat \<Rightarrow> error + int"
  parseEther :: "string \<Rightarrow> error + int"
  formatUnits :: "int \<Rightarrow> nat \<Rightarrow> string"
  isAddress :: "string \<Rightarrow> bool"

text \<open>
  Call data. \<open>encodeFunctionData\<close> is kept symbolic: one constructor per ABI function
  the plugin encodes, \<open>Hex\<close> for data given as a hex string. The ABI coder accepts in an
  address position only a string that \<open>isAddress\<close> accepts.
\<close>

datatype calldata =
    Hex string
  | Erc20_approve string int
  | Erc20_transfer string int
  | SwapExactETHForTokens int "string list" string int
  | SwapExactTokensForETH int int "string list" string int
  | SwapExactTokensForTokens int int "string list" string int

definition encode_address :: "library \<Rightarrow> addr \<Rightarrow> error + string" where
  "encode_address lib a =
     (case a of
        Addr s \<Rightarrow> if isAddress lib s then Inr s else Inl InvalidAddressError
      | Promise s \<Rightarrow> Inl InvalidAddressError
      | Proto k \<Rightarrow> Inl InvalidAddressError)"

fun encode_addresses :: "library \<Rightarrow> addr list \<Rightarrow> error + string list" where
  "encode_addresses lib [] = Inr []"
| "encode_addresses lib (a # rest) =
     (case encode_address lib a of
        Inl e \<Rightarrow> Inl e
      | Inr s \<Rightarrow>
          (case encode_addresses lib rest of Inl e \<Rightarrow> Inl e | Inr ss \<Rightarrow> Inr (s # ss)))"

record EVMTransaction =
  tx_to :: addr
  tx_data :: "calldata option"
  tx_value :: int
  tx_gas :: int
  tx_gasPrice :: int
  tx_chainId :: string

record Transaction =
  to :: addr
  data :: "calldata option"

text \<open>
  The answers of the external collaborators: contract reads, the native balance, the
  BITE encryption (given the RPC URL, \<open>None\<close> for \<open>undefined\<close>; \<open>Inl\<close> carries the
  message of the exception it raised), the broadcast of the wallet client (the hash it
  returns, \<open>None\<close> for \<open>undefined\<close>), the receipt wait and the clock.
\<close>

record network =
  rpc_decimals :: "addr \<Rightarrow> error + nat"
  rpc_balanceOf :: "addr \<Rightarrow> string \<Rightarrow> error + int"
  rpc_getAmountsOut :: "string \<Rightarrow> int \<Rightarrow> addr list \<Rightarrow> error + int list"
  rpc_getBalance :: "string \<Rightarrow> error + int"
  bite_encrypt :: "string option \<Rightarrow> Transaction \<Rightarrow> string + Transaction"
  wallet_send :: "EVMTransaction \<Rightarrow> Transaction \<Rightarrow> error + string option"
  rpc_receipt :: "string option \<Rightarrow> error + unit"
  now_ms :: nat

text \<open>
  Every call that leaves the process is logged in order. \<open>WalletSend\<close> records the
  transaction the plugin built and the payload handed to the wallet client.
\<close>

datatype call =
    ReadContract string addr string
  | GetBalance string string
  | EncryptTx "string option" Transaction
  | WalletSend EVMTransaction Transaction
  | WaitForReceipt string "string option"

text \<open>
  The state threaded through an operation: the ERC-20 allowances on the chain
  (token, owner, spender) and the log of external calls.
\<close>

record chain =
  allowance :: "addr \<Rightarrow> string \<Rightarrow> string \<Rightarrow> int"
  calls :: "call list"

type_synonym 'a action = "chain \<Rightarrow> (error + 'a) \<times> chain"

definition ret :: "'a \<Rightarrow> 'a action" where
  "ret a st = (Inr a, st)"

definition throw :: "error \<Rightarrow> 'a action" where
  "throw e st = (Inl e, st)"

definition lift :: "error + 'a \<Rightarrow> 'a action" where
  "lift r st = (r, st)"

definition bind :: "'a action \<Rightarrow> ('a \<Rightarrow> 'b action) \<Rightarrow> 'b action" where
  "bind m f st = (case m st of (Inl e, st') \<Rightarrow> (Inl e, st') | (Inr a, st') \<Rightarrow> f a st')"

definition log_call :: "call \<Rightarrow> unit action" where
  "log_call c st = (Inr (), st\<lparr>calls := calls st @ [c]\<rparr>)"

subsection \<open>PluginConfigManager\<close>

text \<open>
  What \<open>this.config.chains[chainName]\<close> evaluates to: a configured chain, or an inherited
  member of the registry object (truthy, with every configuration field \<open>undefined\<close>), or
  \<open>undefined\<close> (\<open>None\<close>).
\<close>

datatype chain_object = Configured ChainConfig | Member

definition chain_get :: "WalletProvider \<Rightarrow> string \<Rightarrow> chain_object option" where
  "chain_get wp chainName =
     (case object_get (chains wp) chainName of
        Own c \<Rightarrow> Some (Configured c)
      | Inherited \<Rightarrow> Some Member
      | Absent \<Rightarrow> None)"

definition getChainConfig :: "WalletProvider \<Rightarrow> string \<Rightarrow> error + chain_object" where
  "getChainConfig wp chainName =
     (case chain_get wp chainName of None \<Rightarrow> Inl ChainNotRegistered | Some obj \<Rightarrow> Inr obj)"

text \<open>
  \<open>getTokenAddress\<close> reads \<open>chains[chainName].tokens[tokenName]\<close> without a test of the
  chain: on an unknown chain, and on an inherited member (which has no \<open>tokens\<close>), the
  read raises a \<open>TypeError\<close>.
\<close>

definition getTokenAddress :: "WalletProvider \<Rightarrow> string \<Rightarrow> string \<Rightarrow> error + addr" where
  "getTokenAddress wp chainName tokenName =
     (case chain_get wp chainName of
        None \<Rightarrow> Inl TypeError
      | Some Member \<Rightarrow> Inl TypeError
      | Some (Configured c) \<Rightarrow>
          (case object_get (tokens c) tokenName of
             Absent \<Rightarrow> Inl TokenNotRegistered
           | Own a \<Rightarrow> if a = [] then Inl TokenNotRegistered else Inr (Addr a)
           | Inherited \<Rightarrow> Inr (Proto tokenName)))"

text \<open>\<open>isAddress(undefined)\<close> is false: the router field of an inherited member fails the test.\<close>

definition hasUniswap :: "library \<Rightarrow> WalletProvider \<Rightarrow> string \<Rightarrow> error + bool" where
  "hasUniswap lib wp chainName =
     (case chain_get wp chainName of
        None \<Rightarrow> Inl ChainNotRegistered
      | Some Member \<Rightarrow> Inr False
      | Some (Configured c) \<Rightarrow> Inr (isAddress lib (uniswapV2Router c)))"

definition getUniswapAddress :: "library \<Rightarrow> WalletProvider \<Rightarrow> string \<Rightarrow> error + string" where
  "getUniswapAddress lib wp chainName =
     (case chain_get wp chainName of
        None \<Rightarrow> Inl ChainNotRegistered
      | Some obj \<Rightarrow>
          (case hasUniswap lib wp chainName of
             Inl e \<Rightarrow> Inl e
           | Inr ok \<Rightarrow>
               if \<not> ok then Inl RouterNotConfigured
               else (case obj of
                       Configured c \<Rightarrow> Inr (uniswapV2Router c)
                     | Member \<Rightarrow> Inl RouterNotConfigured)))"

definition getRPC :: "WalletProvider \<Rightarrow> string \<Rightarrow> error + string option" where
  "getRPC wp chainName =
     (case chain_get wp chainName of
        None \<Rightarrow> Inl ChainNotRegistered
      | Some Member \<Rightarrow> Inr None
      | Some (Configured c) \<Rightarrow> Inr (Some (rpc c)))"

definition getChainNativeToken :: "WalletProvider \<Rightarrow> string \<Rightarrow> error + string option" where
  "getChainNativeToken wp chainName =
     (case chain_get wp chainName of
        None \<Rightarrow> Inl ChainNotRegistered
      | Some Member \<Rightarrow> Inr None
      | Some (Configured c) \<Rightarrow> Inr (Some (nativeToken c)))"

subsection \<open>WalletProvider\<close>

definition getAddress :: "WalletProvider \<Rightarrow> string" where
  "getAddress wp = account_address wp"

text \<open>
  \<open>getCurrentChain\<close> builds the viem chain object; the plugin reads its id, printed with
  \<open>toString\<close>, and the symbol of its native currency. The id is the configured \<open>chainId\<close>
  string converted to a number. On an inherited member the id is \<open>NaN\<close> and the symbol and
  the RPC URL are \<open>undefined\<close>.
\<close>

record Chain =
  chain_id :: string
  chain_name :: string
  nativeCurrency_symbol :: "string option"
  rpcUrl :: "string option"

definition getCurrentChain :: "library \<Rightarrow> WalletProvider \<Rightarrow> string \<Rightarrow> error + Chain" where
  "getCurrentChain lib wp chainName =
     (case getChainConfig wp chainName of
        Inl e \<Rightarrow> Inl e
      | Inr (Configured c) \<Rightarrow>
          Inr \<lparr>chain_id = Number_toString lib (chainId c), chain_name = chainName,
               nativeCurrency_symbol = Some (nativeToken c), rpcUrl = Some (rpc c)\<rparr>
      | Inr Member \<Rightarrow>
          Inr \<lparr>chain_id = ''NaN'', chain_name = chainName,
               nativeCurrency_symbol = None, rpcUrl = None\<rparr>)"

definition getChainToken :: "WalletProvider \<Rightarrow> string \<Rightarrow> string \<Rightarrow> error + addr" where
  "getChainToken wp chainName tokenName = getTokenAddress wp chainName tokenName"

definition getChainUniswapRouter :: "library \<Rightarrow> WalletProvider \<Rightarrow> string \<Rightarrow> error + string" where
  "getChainUniswapRouter lib wp chainName = getUniswapAddress lib wp chainName"

definition getChainRpc :: "WalletProvider \<Rightarrow> string \<Rightarrow> error + string option" where
  "getChainRpc wp chainName = getRPC wp chainName"

definition getChainNativetToken :: "WalletProvider \<Rightarrow> string \<Rightarrow> error + string option" where
  "getChainNativetToken wp chainName = getChainNativeToken wp chainName"

definition isChainSupported :: "WalletProvider \<Rightarrow> string \<Rightarrow> error + bool" where
  "isChainSupported wp chainName =
     (if chainName = [] then Inr False
      else case getChainConfig wp chainName of Inl e \<Rightarrow> Inl e | Inr c \<Rightarrow> Inr True)"

text \<open>
  \<open>getPublicClient\<close> and \<open>getWalletClient\<close> build a client for the chain and make no
  call by themselves. They fail when the chain lookup raises, and viem's HTTP transport
  raises when the chain object has no RPC URL (an inherited member; a configured chain has
  one, by the configuration check).
\<close>

definition getClient :: "library \<Rightarrow> WalletProvider \<Rightarrow> string \<Rightarrow> unit action" where
  "getClient lib wp chainName =
     (case getCurrentChain lib wp chainName of
        Inl e \<Rightarrow> throw e
      | Inr ch \<Rightarrow>
          (case rpcUrl ch of
             None \<Rightarrow> throw (External ''UrlRequiredError'')
           | Some u \<Rightarrow> ret ()))"

definition readContract ::
  "library \<Rightarrow> WalletProvider \<Rightarrow> string \<Rightarrow> addr \<Rightarrow> string \<Rightarrow> (error + 'a) \<Rightarrow> 'a action" where
  "readContract lib wp chainName contract functionName answer =
     bind (getClient lib wp chainName) (\<lambda>_.
     bind (log_call (ReadContract chainName contract functionName)) (\<lambda>_.
     lift answer))"

text \<open>The two fields of a transaction that are encrypted or sent as they are.\<close>

definition plain_of :: "EVMTransaction \<Rightarrow> Transaction" where
  "plain_of transaction = \<lparr>to = tx_to transaction, data = tx_data transaction\<rparr>"

definition encryptTx :: "network \<Rightarrow> string option \<Rightarrow> EVMTransaction \<Rightarrow> Transaction action" where
  "encryptTx net rpcUrl' transaction =
     (let tx = plain_of transaction in
      bind (log_call (EncryptTx rpcUrl' tx)) (\<lambda>_.
      case bite_encrypt net rpcUrl' tx of
        Inl msg \<Rightarrow> throw (EncryptionFailed msg)
      | Inr enc \<Rightarrow> ret enc))"

text \<open>
  The effect of a broadcast transaction on the allowances: the token contract's
  \<open>approve(spender, amount)\<close> sets the owner's allowance for the spender to the amount
  (the ERC-20 standard). Other calls leave the allowances as they are.
\<close>

definition chain_effect :: "string \<Rightarrow> EVMTransaction \<Rightarrow> chain \<Rightarrow> chain" where
  "chain_effect owner transaction st =
     (case tx_data transaction of
        Some (Erc20_approve spender amount) \<Rightarrow>
          st\<lparr>allowance := (allowance st)
                (tx_to transaction := (allowance st (tx_to transaction))
                   (owner := (allowance st (tx_to transaction) owner)(spender := amount)))\<rparr>
      | _ \<Rightarrow> st)"

definition broadcast ::
  "WalletProvider \<Rightarrow> network \<Rightarrow> EVMTransaction \<Rightarrow> Transaction \<Rightarrow> string option action" where
  "broadcast wp net transaction payload st =
     (let st1 = st\<lparr>calls := calls st @ [WalletSend transaction payload]\<rparr> in
      case wallet_send net transaction payload of
        Inl e \<Rightarrow> (Inl e, st1)
      | Inr h \<Rightarrow> (Inr h, chain_effect (getAddress wp) transaction st1))"

definition truthy_flag :: "bool option \<Rightarrow> bool" where
  "truthy_flag b = (b = Some True)"

definition sendTransaction ::
  "library \<Rightarrow> WalletProvider \<Rightarrow> network \<Rightarrow> string \<Rightarrow> EVMTransaction \<Rightarrow> bool option
     \<Rightarrow> string option action" where
  "sendTransaction lib wp net chainName tansaction isBite =
     bind (getClient lib wp chainName) (\<lambda>_.
     bind (if biteConfig wp = automatic \<or> truthy_flag isBite
           then bind (lift (getChainRpc wp chainName)) (\<lambda>r. encryptTx net r tansaction)
           else ret (plain_of tansaction)) (\<lambda>tx'.
     broadcast wp net tansaction tx'))"

definition waitForTx ::
  "library \<Rightarrow> WalletProvider \<Rightarrow> network \<Rightarrow> string \<Rightarrow> string option \<Rightarrow> unit action" where
  "waitForTx lib wp net chainName tx =
     bind (getClient lib wp chainName) (\<lambda>_.
     bind (log_call (WaitForReceipt chainName tx)) (\<lambda>_.
     lift (rpc_receipt net tx)))"

section \<open>Swap action\<close>

record TokenInfo =
  address :: addr
  isNative :: bool

definition resolveTokenAddress ::
  "library \<Rightarrow> WalletProvider \<Rightarrow> string \<Rightarrow> string \<Rightarrow> error + TokenInfo" where
  "resolveTokenAddress lib wp token chainName =
     (if startsWith token ''0x'' then Inr \<lparr>address = Addr token, isNative = False\<rparr>
      else
        case getCurrentChain lib wp chainName of
          Inl e \<Rightarrow> Inl e
        | Inr ch \<Rightarrow>
            (case nativeCurrency_symbol ch of
               None \<Rightarrow> Inl TypeError
             | Some nativeToken' \<Rightarrow>
                 if toLowerCase token = toLowerCase nativeToken' then
                   (case getChainToken wp chainName (''W'' @ nativeToken') of
                      Inl e \<Rightarrow> Inl e
                    | Inr nativeAddress \<Rightarrow> Inr \<lparr>address = nativeAddress, isNative = True\<rparr>)
                 else
                   (case getChainToken wp chainName token of
                      Inl e \<Rightarrow> Inl e
                    | Inr tokenAddress \<Rightarrow>
                        if tokenAddress = Addr [] then Inl (UnsupportedToken token chainName)
                        else Inr \<lparr>address = tokenAddress, isNative = False\<rparr>)))"

text \<open>
  The body of the \<open>try\<close> block of \<open>calculateAmountOut\<close> after the quote has been read:
  the second element of the returned array, the slippage multiplier in basis points and
  the minimum output. Reading past the array or converting a non-integer raises.
\<close>

definition slippageMultiplier :: "number \<Rightarrow> error + int" where
  "slippageMultiplier slippage =
     BigInt (Math_floor (js_mul (js_sub (Num 100) slippage) (Num 100)))"

definition amountsOut :: "int list \<Rightarrow> number \<Rightarrow> error + int \<times> int" where
  "amountsOut amounts slippage =
     (case slippageMultiplier slippage of
        Inl e \<Rightarrow> Inl e
      | Inr m \<Rightarrow>
          if length amounts < 2 then Inl TypeError
          else
            let amountOut = amounts ! 1 in
            Inr (amountOut, bigint_div (amountOut * m) 10000))"

definition calculateAmountOut ::
  "library \<Rightarrow> WalletProvider \<Rightarrow> network \<Rightarrow> int \<Rightarrow> addr \<Rightarrow> addr \<Rightarrow> number \<Rightarrow> string
     \<Rightarrow> (int \<times> int) action" where
  "calculateAmountOut lib wp net amountIn inputTokenAddress outputTokenAddress slippage chainName =
     (let path = [inputTokenAddress, outputTokenAddress] in
      bind (lift (getChainUniswapRouter lib wp chainName)) (\<lambda>routerAddress.
      (\<lambda>st.
         case bind (readContract lib wp chainName (Addr routerAddress) ''getAmountsOut''
                      (rpc_getAmountsOut net routerAddress amountIn path))
                   (\<lambda>amounts. lift (amountsOut amounts slippage)) st of
           (Inl e, st') \<Rightarrow> (Inl QuoteUnavailable, st')
         | (Inr r, st') \<Rightarrow> (Inr r, st'))))"

subsection \<open>Swap requests\<close>

record SwapParams =
  swap_chainName :: string
  inputToken :: string
  outputToken :: string
  swap_amount :: string
  slippage :: "number option"
  swap_isBite :: "bool option"

record SwapResponse =
  sr_chainName :: string
  sr_txHash :: "string option"
  sr_inputToken :: string
  sr_outputToken :: string
  sr_amountIn :: string
  sr_amountOut :: string
  sr_isBite :: "bool option"

definition DEFAULT_SLIPPAGE :: number where
  "DEFAULT_SLIPPAGE = Num (1 / 2)"

definition DEFAULT_DEADLINE_MINUTES :: nat where
  "DEFAULT_DEADLINE_MINUTES = 5"

definition SWAP_GAS :: int where
  "SWAP_GAS = 1000000"

definition DEFAULT_GAS_PRICE :: int where
  "DEFAULT_GAS_PRICE = 1000000"

text \<open>
  The hash test \<open>!txHash || txHash === '0x'\<close>: an absent hash, the empty string and
  \<open>0x\<close> count as no hash.
\<close>

definition no_hash :: "string option \<Rightarrow> bool" where
  "no_hash h = (h = None \<or> h = Some [] \<or> h = Some ''0x'')"

text \<open>\<open>amount.includes('.') ? amount : amount + '.0'\<close>\<close>

definition amountStr :: "string \<Rightarrow> string" where
  "amountStr a = (if includes_dot a then a else a @ ''.0'')"

definition swap_validateAndNormalizeParams :: "library \<Rightarrow> SwapParams \<Rightarrow> error + unit" where
  "swap_validateAndNormalizeParams lib params =
     (if inputToken params = [] \<or> outputToken params = [] then Inl TokensRequired
      else if toLowerCase (inputToken params) = toLowerCase (outputToken params)
        then Inl SameTokenSwap
      else if swap_amount params = [] then Inl MissingAmount
      else if js_le (parseFloat lib (swap_amount params)) (Num 0) then Inl ZeroAmount
      else
        case slippage params of
          None \<Rightarrow> Inr ()
        | Some s \<Rightarrow>
            if js_lt s (Num 0) \<or> js_gt s (Num 50) then Inl InvalidSlippage else Inr ())"

text \<open>\<open>params.slippage || this.DEFAULT_SLIPPAGE\<close>\<close>

definition swap_slippage :: "SwapParams \<Rightarrow> number" where
  "swap_slippage params =
     (case slippage params of
        None \<Rightarrow> DEFAULT_SLIPPAGE
      | Some s \<Rightarrow> if truthy_number s then s else DEFAULT_SLIPPAGE)"

definition readAllowance ::
  "library \<Rightarrow> WalletProvider \<Rightarrow> string \<Rightarrow> addr \<Rightarrow> string \<Rightarrow> string \<Rightarrow> int action" where
  "readAllowance lib wp chainName tokenAddress owner spender =
     bind (getClient lib wp chainName) (\<lambda>_.
     bind (log_call (ReadContract chainName tokenAddress ''allowance'')) (\<lambda>_.
     (\<lambda>st. (Inr (allowance st tokenAddress owner spender), st))))"

definition approveToken ::
  "library \<Rightarrow> WalletProvider \<Rightarrow> network \<Rightarrow> addr \<Rightarrow> string \<Rightarrow> int \<Rightarrow> string \<Rightarrow> bool option
     \<Rightarrow> unit action" where
  "approveToken lib wp net tokenAddress spender amount chainName isBite =
     bind (readAllowance lib wp chainName tokenAddress (getAddress wp) spender)
       (\<lambda>currentAllowance.
     if currentAllowance < amount then
       bind (lift (encode_address lib (Addr spender))) (\<lambda>spender'.
       bind (lift (getCurrentChain lib wp chainName)) (\<lambda>ch.
       let txContent =
             \<lparr>tx_to = tokenAddress, tx_data = Some (Erc20_approve spender' amount),
              tx_value = 0, tx_gas = SWAP_GAS, tx_gasPrice = DEFAULT_GAS_PRICE,
              tx_chainId = chain_id ch\<rparr> in
       bind (sendTransaction lib wp net chainName txContent isBite) (\<lambda>approveTxHash.
       waitForTx lib wp net chainName approveTxHash)))
     else ret ())"

definition swapETHForTokens ::
  "library \<Rightarrow> WalletProvider \<Rightarrow> network \<Rightarrow> int \<Rightarrow> int \<Rightarrow> addr \<Rightarrow> addr \<Rightarrow> string \<Rightarrow> int
     \<Rightarrow> string \<Rightarrow> bool option \<Rightarrow> string option action" where
  "swapETHForTokens lib wp net amountIn amountOutMin inputTokenAddress outputTokenAddress
       recipient deadline chainName isBite =
     bind (lift (encode_addresses lib [inputTokenAddress, outputTokenAddress])) (\<lambda>path.
     bind (lift (encode_address lib (Addr recipient))) (\<lambda>recipient'.
     let transferData = SwapExactETHForTokens amountOutMin path recipient' deadline in
     bind (lift (getChainUniswapRouter lib wp chainName)) (\<lambda>router.
     bind (lift (getCurrentChain lib wp chainName)) (\<lambda>ch.
     sendTransaction lib wp net chainName
       \<lparr>tx_to = Addr router, tx_data = Some transferData, tx_value = amountIn,
        tx_gas = SWAP_GAS, tx_gasPrice = DEFAULT_GAS_PRICE, tx_chainId = chain_id ch\<rparr>
       isBite))))"

definition swapTokensForETH ::
  "library \<Rightarrow> WalletProvider \<Rightarrow> network \<Rightarrow> int \<Rightarrow> int \<Rightarrow> addr \<Rightarrow> addr \<Rightarrow> string \<Rightarrow> int
     \<Rightarrow> string \<Rightarrow> bool option \<Rightarrow> string option action" where
  "swapTokensForETH lib wp net amountIn amountOutMin inputTokenAddress outputTokenAddress
       recipient deadline chainName isBite =
     bind (lift (getChainUniswapRouter lib wp chainName)) (\<lambda>rounterAddress.
     bind (approveToken lib wp net inputTokenAddress rounterAddress amountIn chainName isBite)
       (\<lambda>_.
     bind (lift (encode_addresses lib [inputTokenAddress, outputTokenAddress])) (\<lambda>path.
     bind (lift (encode_address lib (Addr recipient))) (\<lambda>recipient'.
     let transferData = SwapExactTokensForETH amountIn amountOutMin path recipient' deadline in
     bind (lift (getCurrentChain lib wp chainName)) (\<lambda>ch.
     sendTransaction lib wp net chainName
       \<lparr>tx_to = Addr rounterAddress, tx_data = Some transferData, tx_value = 0,
        tx_gas = SWAP_GAS, tx_gasPrice = DEFAULT_GAS_PRICE, tx_chainId = chain_id ch\<rparr>
       isBite)))))"

definition swapTokensForTokens ::
  "library \<Rightarrow> WalletProvider \<Rightarrow> network \<Rightarrow> int \<Rightarrow> int \<Rightarrow> addr \<Rightarrow> addr \<Rightarrow> string \<Rightarrow> int
     \<Rightarrow> string \<Rightarrow> bool option \<Rightarrow> string option action" where
  "swapTokensForTokens lib wp net amountIn amountOutMin inputTokenAddress outputTokenAddress
       recipient deadline chainName isBite =
     bind (lift (getChainUniswapRouter lib wp chainName)) (\<lambda>rounterAddress.
     bind (approveToken lib wp net inputTokenAddress rounterAddress amountIn chainName isBite)
       (\<lambda>_.
     bind (lift (encode_addresses lib [inputTokenAddress, outputTokenAddress])) (\<lambda>path.
     bind (lift (encode_address lib (Addr recipient))) (\<lambda>recipient'.
     let transferData =
           SwapExactTokensForTokens amountIn amountOutMin path recipient' deadline in
     bind (lift (getCurrentChain lib wp chainName)) (\<lambda>ch.
     sendTransaction lib wp net chainName
       \<lparr>tx_to = Addr rounterAddress, tx_data = Some transferData, tx_value = 0,
        tx_gas = SWAP_GAS, tx_gasPrice = DEFAULT_GAS_PRICE, tx_chainId = chain_id ch\<rparr>
       isBite)))))"

text \<open>The route taken by \<open>swap\<close>, chosen by the two native flags.\<close>

definition swap_route ::
  "library \<Rightarrow> WalletProvider \<Rightarrow> network \<Rightarrow> TokenInfo \<Rightarrow> TokenInfo \<Rightarrow> int \<Rightarrow> int \<Rightarrow> string
     \<Rightarrow> int \<Rightarrow> string \<Rightarrow> bool option \<Rightarrow> string option action" where
  "swap_route lib wp net inputTokenInfo outputTokenInfo amountIn amountOutMin fromAddress
       deadline chainName isBite =
     (if isNative inputTokenInfo \<and> \<not> isNative outputTokenInfo then
        swapETHForTokens lib wp net amountIn amountOutMin (address inputTokenInfo)
          (address outputTokenInfo) fromAddress deadline chainName isBite
      else if \<not> isNative inputTokenInfo \<and> isNative outputTokenInfo then
        swapTokensForETH lib wp net amountIn amountOutMin (address inputTokenInfo)
          (address outputTokenInfo) fromAddress deadline chainName isBite
      else
        swapTokensForTokens lib wp net amountIn amountOutMin (address inputTokenInfo)
          (address outputTokenInfo) fromAddress deadline chainName isBite)"

text \<open>
  The part of \<open>swap\<close> after validation: resolution, decimals, scaling, deadline, quote,
  route, hash test, receipt wait and response.
\<close>

definition swap_execute ::
  "library \<Rightarrow> WalletProvider \<Rightarrow> network \<Rightarrow> SwapParams \<Rightarrow> SwapResponse action" where
  "swap_execute lib wp net params =
     (let chainName = swap_chainName params; fromAddress = getAddress wp in
      bind (lift (resolveTokenAddress lib wp (inputToken params) chainName)) (\<lambda>inputTokenInfo.
      bind (lift (resolveTokenAddress lib wp (outputToken params) chainName))
        (\<lambda>outputTokenInfo.
      bind (readContract lib wp chainName (address inputTokenInfo) ''decimals''
              (rpc_decimals net (address inputTokenInfo))) (\<lambda>fromTokenDecimals.
      bind (readContract lib wp chainName (address outputTokenInfo) ''decimals''
              (rpc_decimals net (address outputTokenInfo))) (\<lambda>toTokenDecimals.
      bind (lift (parseUnits lib (swap_amount params) fromTokenDecimals)) (\<lambda>amountIn.
      let deadline = int (now_ms net div 1000 + DEFAULT_DEADLINE_MINUTES * 60);
          slippage' = swap_slippage params in
      bind (calculateAmountOut lib wp net amountIn (address inputTokenInfo)
              (address outputTokenInfo) slippage' chainName) (\<lambda>(amountOut, amountOutMin).
      bind (swap_route lib wp net inputTokenInfo outputTokenInfo amountIn amountOutMin
              fromAddress deadline chainName (swap_isBite params)) (\<lambda>txHash.
      if no_hash txHash then throw SwapNotSubmitted
      else
        bind (waitForTx lib wp net chainName txHash) (\<lambda>_.
        ret \<lparr>sr_chainName = chainName,
             sr_txHash = txHash,
             sr_inputToken = inputToken params,
             sr_outputToken = outputToken params,
             sr_amountIn = amountStr (swap_amount params),
             sr_amountOut = formatUnits lib amountOut toTokenDecimals,
             sr_isBite = swap_isBite params\<rparr>)))))))))"

definition swap ::
  "library \<Rightarrow> WalletProvider \<Rightarrow> network \<Rightarrow> SwapParams \<Rightarrow> SwapResponse action" where
  "swap lib wp net params =
     bind (lift (isChainSupported wp (swap_chainName params))) (\<lambda>supported.
     if \<not> supported then throw (UnsupportedChain (swap_chainName params))
     else
       bind (lift (swap_validateAndNormalizeParams lib params)) (\<lambda>_.
       swap_execute lib wp net params))"

section \<open>Transfer action\<close>

text \<open>
  A transfer request. The recipient is a string in a request; after validation the field
  holds the promise that \<open>formatAddress\<close> returned.
\<close>

record TransferParams =
  transfer_chainName :: string
  token :: "string option"
  transfer_amount :: "string option"
  toAddress :: "addr option"
  transfer_data :: "string option"
  transfer_isBite :: "bool option"

record TransferResponse =
  tr_chainName :: string
  tr_txHash :: "string option"
  tr_recipient :: addr
  tr_amount :: string
  tr_token :: "string option"
  tr_isBite :: "bool option"

definition TRANSFER_GAS :: int where
  "TRANSFER_GAS = 1000000"

text \<open>
  \<open>WalletProvider.formatAddress\<close>: the string that the promise it returns resolves to.
\<close>

definition commonTokens :: "string list" where
  "commonTokens = [''FAIR'', ''USDT'', ''USDC'', ''SKL'', ''WFAIR'']"

definition formatAddress :: "library \<Rightarrow> WalletProvider \<Rightarrow> string option \<Rightarrow> string" where
  "formatAddress lib wp a =
     (case a of
        None \<Rightarrow> getAddress wp
      | Some s \<Rightarrow>
          if length (trim lib s) = 0 then getAddress wp
          else
            let addressStr = trim lib s in
            if startsWith addressStr ''0x'' \<and> length addressStr = 42 then addressStr
            else if toUpperCase addressStr \<in> set commonTokens then getAddress wp
            else if startsWith addressStr ''0x'' then addressStr
            else getAddress wp)"

text \<open>
  What \<open>String(value)\<close> gives for a value in an address position that is not a string.
\<close>

definition addr_string :: "addr \<Rightarrow> string" where
  "addr_string a =
     (case a of
        Addr s \<Rightarrow> s
      | Promise s \<Rightarrow> ''[object Promise]''
      | Proto k \<Rightarrow> ''[object Object]'')"

text \<open>
  \<open>TransferAction.validateAndNormalizeParams\<close> is not \<open>async\<close> and does not await
  \<open>formatAddress\<close>: \<open>params.toAddress\<close> becomes the promise.
\<close>

definition transfer_validateAndNormalizeParams ::
  "library \<Rightarrow> WalletProvider \<Rightarrow> TransferParams \<Rightarrow> error + TransferParams" where
  "transfer_validateAndNormalizeParams lib wp params =
     (case toAddress params of
        None \<Rightarrow> Inl MissingRecipient
      | Some a \<Rightarrow>
          if a = Addr [] then Inl MissingRecipient
          else
            (let params1 =
                   params\<lparr>toAddress :=
                            Some (Promise (formatAddress lib wp (Some (addr_string a))))\<rparr>;
                 checked =
                   (case transfer_amount params1 of
                      None \<Rightarrow> Inr ()
                    | Some amt \<Rightarrow>
                        (let amountFloat = parseFloat lib amt in
                         if amountFloat = Num 0 then Inl ZeroAmount
                         else if js_lt amountFloat (Num 0) then Inl NegativeAmount
                         else Inr ()))
             in (case checked of
                   Inl e \<Rightarrow> Inl e
                 | Inr u \<Rightarrow>
                     Inr (params1\<lparr>transfer_data :=
                            (if transfer_data params1 = Some ''null'' then Some ''0x''
                             else transfer_data params1)\<rparr>))))"

text \<open>\<open>parseEther(params.amount)\<close> and \<open>parseUnits(params.amount, d)\<close> on an absent amount raise.\<close>

definition parse_amount :: "(string \<Rightarrow> error + int) \<Rightarrow> string option \<Rightarrow> error + int" where
  "parse_amount parse a = (case a of None \<Rightarrow> Inl TypeError | Some s \<Rightarrow> parse s)"

text \<open>The native branch of \<open>transfer\<close>: no hash test and no receipt wait.\<close>

definition transfer_native ::
  "library \<Rightarrow> WalletProvider \<Rightarrow> network \<Rightarrow> TransferParams \<Rightarrow> TransferResponse \<Rightarrow> EVMTransaction
     \<Rightarrow> TransferResponse action" where
  "transfer_native lib wp net params resp txToEncrypt =
     bind (lift (parse_amount (parseEther lib) (transfer_amount params))) (\<lambda>v.
     bind (sendTransaction lib wp net (transfer_chainName params) (txToEncrypt\<lparr>tx_value := v\<rparr>)
             (transfer_isBite params)) (\<lambda>h.
     ret (resp\<lparr>tr_amount := amountStr (the (transfer_amount params)), tr_txHash := h\<rparr>)))"

text \<open>
  The ERC-20 branch of \<open>transfer\<close>. The recipient goes through the ABI coder, which
  rejects the promise; the broadcast, the hash test and the receipt wait come after it.
\<close>

definition transfer_erc20 ::
  "library \<Rightarrow> WalletProvider \<Rightarrow> network \<Rightarrow> TransferParams \<Rightarrow> string \<Rightarrow> addr
     \<Rightarrow> TransferResponse \<Rightarrow> EVMTransaction \<Rightarrow> TransferResponse action" where
  "transfer_erc20 lib wp net params tok recipient resp txToEncrypt =
     (let chainName = transfer_chainName params in
      bind (lift (getChainToken wp chainName tok)) (\<lambda>tokenAddress.
      bind (readContract lib wp chainName tokenAddress ''decimals''
              (rpc_decimals net tokenAddress)) (\<lambda>decimals.
      bind (lift (parse_amount (\<lambda>s. parseUnits lib s decimals) (transfer_amount params)))
        (\<lambda>v.
      bind (lift (encode_address lib recipient)) (\<lambda>recipient'.
      bind (sendTransaction lib wp net chainName
              (txToEncrypt\<lparr>tx_data := Some (Erc20_transfer recipient' v),
                            tx_to := tokenAddress\<rparr>)
              (transfer_isBite params)) (\<lambda>h.
      if no_hash h then throw TransactionNotSubmitted
      else
        bind (log_call (WaitForReceipt chainName h)) (\<lambda>_.
        bind (lift (rpc_receipt net h)) (\<lambda>_.
        ret (resp\<lparr>tr_amount := amountStr (the (transfer_amount params)),
                  tr_txHash := h\<rparr>)))))))))"

text \<open>
  The token of the request after the two normalizing assignments; \<open>None\<close> is
  \<open>undefined\<close>, which the native symbol of an inherited chain member is.
\<close>

definition transfer_token :: "string option \<Rightarrow> string option \<Rightarrow> error + string option" where
  "transfer_token requested nativeToken' =
     (case requested of
        None \<Rightarrow> Inr nativeToken'
      | Some t \<Rightarrow>
          if t = ''null'' \<or> t = [] then Inr nativeToken'
          else
            (case nativeToken' of
               None \<Rightarrow> Inl TypeError
             | Some n \<Rightarrow> if toLowerCase t = toLowerCase n then Inr (Some n) else Inr (Some t)))"

definition transfer ::
  "library \<Rightarrow> WalletProvider \<Rightarrow> network \<Rightarrow> TransferParams \<Rightarrow> TransferResponse action" where
  "transfer lib wp net params0 =
     (let chainName = transfer_chainName params0 in
      bind (lift (isChainSupported wp chainName)) (\<lambda>supported.
      if \<not> supported then throw (UnsupportedChain chainName)
      else
        bind (lift (getChainNativetToken wp chainName)) (\<lambda>chainNativeToken.
        bind (lift (transfer_validateAndNormalizeParams lib wp params0)) (\<lambda>params.
        bind (lift (getCurrentChain lib wp chainName)) (\<lambda>ch.
        let nativeToken' = nativeCurrency_symbol ch in
        bind (getClient lib wp chainName) (\<lambda>_.
        bind (lift (transfer_token (token params) nativeToken')) (\<lambda>tok.
        let recipient = the (toAddress params);
            resp = \<lparr>tr_chainName = chainName, tr_txHash = Some ''0x'',
                    tr_recipient = recipient, tr_amount = [], tr_token = tok,
                    tr_isBite = transfer_isBite params\<rparr>;
            txToEncrypt =
              \<lparr>tx_to = recipient, tx_data = map_option Hex (transfer_data params),
               tx_value = 0, tx_gas = TRANSFER_GAS, tx_gasPrice = DEFAULT_GAS_PRICE,
               tx_chainId = chain_id ch\<rparr>
        in
        if tok = None \<or> tok = Some [] \<or> tok = Some ''null'' \<or> tok = nativeToken' then
          transfer_native lib wp net params resp txToEncrypt
        else if tok = chainNativeToken then
          transfer_native lib wp net params (resp\<lparr>tr_token := nativeToken'\<rparr>) txToEncrypt
        else
          transfer_erc20 lib wp net params (the tok) recipient resp txToEncrypt)))))))"

section \<open>Balance action\<close>

record GetBalanceParams =
  balance_chainName :: string
  balance_address :: "string option"
  balance_token :: "string option"

record GetBalanceResponse =
  br_chainName :: string
  br_address :: string
  br_balance :: "(string option \<times> string) option"

text \<open>\<open>WalletProvider.getBalance\<close>: the native balance, formatted with 18 decimals.\<close>

definition wp_getBalance :: "library \<Rightarrow> WalletProvider \<Rightarrow> network \<Rightarrow> string \<Rightarrow> string action" where
  "wp_getBalance lib wp net chainName =
     bind (getClient lib wp chainName) (\<lambda>_.
     bind (log_call (GetBalance chainName (account_address wp))) (\<lambda>_.
     bind (lift (rpc_getBalance net (account_address wp))) (\<lambda>balance.
     ret (formatUnits lib balance 18))))"

definition getERC20TokenBalance ::
  "library \<Rightarrow> WalletProvider \<Rightarrow> network \<Rightarrow> string \<Rightarrow> string \<Rightarrow> addr \<Rightarrow> string action" where
  "getERC20TokenBalance lib wp net chainName holder tokenAddress =
     bind (readContract lib wp chainName tokenAddress ''balanceOf''
             (rpc_balanceOf net tokenAddress holder)) (\<lambda>balance.
     bind (readContract lib wp chainName tokenAddress ''decimals''
             (rpc_decimals net tokenAddress)) (\<lambda>decimals.
     ret (formatUnits lib balance decimals)))"

text \<open>
  \<open>GetBalanceAction.validateAndNormalizeParams\<close>. Its body is one \<open>try\<close> block whose
  handler falls back to the wallet address; the chain lookup, and the key listing of the
  token table of an inherited member, are what can raise in it.
\<close>

definition balance_validateAndNormalizeParams ::
  "WalletProvider \<Rightarrow> GetBalanceParams \<Rightarrow> GetBalanceParams" where
  "balance_validateAndNormalizeParams wp params0 =
     (let params = (if balance_chainName params0 = []
                    then params0\<lparr>balance_chainName := ''fair-testnet''\<rparr> else params0);
          own = params\<lparr>balance_address := Some (getAddress wp)\<rparr> in
      case balance_address params of
        None \<Rightarrow> own
      | Some addressStr \<Rightarrow>
          if addressStr = [] then own
          else if addressStr = ''null'' \<or> addressStr = ''undefined'' then own
          else if startsWith addressStr ''0x'' \<and> length addressStr = 42 then params
          else
            (case getChainConfig wp (balance_chainName params) of
               Inl e \<Rightarrow> own
             | Inr Member \<Rightarrow> own
             | Inr (Configured config) \<Rightarrow>
                 if toUpperCase addressStr \<in> dom (tokens config)
                    \<or> toUpperCase addressStr = nativeToken config then own
                 else if startsWith addressStr ''0x'' then params
                 else own))"

definition getBalance ::
  "library \<Rightarrow> WalletProvider \<Rightarrow> network \<Rightarrow> GetBalanceParams \<Rightarrow> GetBalanceResponse action" where
  "getBalance lib wp net params0 =
     (let params = balance_validateAndNormalizeParams wp params0;
          chainName = balance_chainName params in
      case balance_address params of
        None \<Rightarrow> throw AddressRequired
      | Some holder \<Rightarrow>
          if holder = [] then throw AddressRequired
          else
            bind (lift (getCurrentChain lib wp chainName)) (\<lambda>ch.
            let nativeSymbol = nativeCurrency_symbol ch;
                resp = \<lparr>br_chainName = chainName, br_address = holder, br_balance = None\<rparr> in
            bind (case balance_token params of
                    None \<Rightarrow> ret True
                  | Some t \<Rightarrow>
                      if t = [] then ret True
                      else bind (lift (getChainNativetToken wp chainName)) (\<lambda>n.
                           ret (Some (toUpperCase t) = n))) (\<lambda>queryNativeToken.
            if \<not> queryNativeToken then
              (let t = the (balance_token params) in
               if startsWith t ''0x'' then
                 bind (getERC20TokenBalance lib wp net chainName holder (Addr t)) (\<lambda>amount.
                 ret (resp\<lparr>br_balance := Some (Some t, amount)\<rparr>))
               else
                 bind (lift (getChainToken wp chainName t)) (\<lambda>tokenAddress.
                 if tokenAddress = Addr [] then throw (TokenNotSupported t)
                 else
                   bind (getERC20TokenBalance lib wp net chainName holder tokenAddress)
                     (\<lambda>amount.
                   ret (resp\<lparr>br_balance := Some (Some t, amount)\<rparr>))))
            else
              bind (wp_getBalance lib wp net chainName) (\<lambda>balance.
              ret (resp\<lparr>br_balance := Some (nativeSymbol, balance)\<rparr>)))))"

section \<open>The default registry and an example environment\<close>

definition DEFAULT_CHAIN_CONFIG :: ChainConfig where
  "DEFAULT_CHAIN_CONFIG =
     \<lparr>chainId = ''1328435889'',
      nativeToken = ''FAIR'',
      rpc = ''https://testnet-v1.skalenodes.com/v1/idealistic-dual-miram'',
      explorerUrl = ''https://idealistic-dual-miram.explorer.testnet-v1.skalenodes.com/'',
      tokens =
        [''USDC'' \<mapsto> ''0x389E0Ec8a0226E96528761b5954830727d892117'',
         ''SKL'' \<mapsto> ''0x2770Fc13a45be852Db0bB90A85D463C03CCa4fA6'',
         ''USDT'' \<mapsto> ''0x1D13d5697490C94f5Aa6f38bEEB4D6Ef4535a40c'',
         ''WFAIR'' \<mapsto> ''0x4706C664ab84B7d6b9a7911cFB47b1f81335b208''],
      uniswapV2Router = ''0x05BD86b5e9A6a8E838ef50cAEB96a502271349D0''\<rparr>"

definition DEFAULT_PLUGIN_CONFIG :: "string \<rightharpoonup> ChainConfig" where
  "DEFAULT_PLUGIN_CONFIG = [''fair-testnet'' \<mapsto> DEFAULT_CHAIN_CONFIG]"

text \<open>
  A provider on the default registry, with the account of the repository's tests, in
  either encryption mode.
\<close>

definition example_wallet :: "BiteConfig \<Rightarrow> WalletProvider" where
  "example_wallet mode =
     \<lparr>account_address = ''0x742d35Cc6634C0532925a3b844Bc454e4438f44e'',
      biteConfig = mode,
      chains = DEFAULT_PLUGIN_CONFIG\<rparr>"

text \<open>
  The library functions, fixed on the inputs of the examples below: the amount strings
  \<open>1.0\<close> and \<open>0\<close>; strings whose only white space is ASCII, where \<open>trim\<close> is
  \<open>ascii_trim\<close>; the two chain ids of the registries below, which \<open>(+s).toString()\<close>
  gives back unchanged; and the 42-character \<open>0x\<close> addresses of the examples, which
  \<open>isAddress\<close> is taken to accept.
\<close>

definition example_lib :: library where
  "example_lib =
     \<lparr>parseFloat = (\<lambda>s. if s = ''1.0'' then Num 1 else if s = ''0'' then Num 0 else NaN),
      trim = ascii_trim,
      Number_toString = (\<lambda>s. if s = ''1328435889'' \<or> s = ''31337'' then s else ''NaN''),
      parseUnits = (\<lambda>s d. if s = ''1.0'' then Inr (10 ^ d) else Inl (External ''parseUnits'')),
      parseEther = (\<lambda>s. if s = ''1.0'' then Inr (10 ^ 18) else Inl (External ''parseEther'')),
      formatUnits = (\<lambda>v d. if v = 500000000000000000 \<and> d = 18 then ''0.5''
                            else if v = 1000000000000000000000 \<and> d = 18 then ''1000''
                            else if v = 7000000000000000000 \<and> d = 18 then ''7''
                            else ''?''),
      isAddress = (\<lambda>a. startsWith a ''0x'' \<and> length a = 42)\<rparr>"

text \<open>
  The collaborators as the repository's tests mock them: 18 decimals, a quote of
  \<open>0.5\<close> output for the input, a fixed transaction hash.
\<close>

definition example_hash :: string where
  "example_hash = ''0x1234567890abcdef1234567890abcdef1234567890abcdef1234567890abcdef''"

definition example_net :: network where
  "example_net =
     \<lparr>rpc_decimals = (\<lambda>_. Inr 18),
      rpc_balanceOf = (\<lambda>_ _. Inr 0),
      rpc_getAmountsOut = (\<lambda>_ amountIn _. Inr [amountIn, 500000000000000000]),
      rpc_getBalance = (\<lambda>a. if a = ''0x742d35Cc6634C0532925a3b844Bc454e4438f44e''
                             then Inr 1000000000000000000000 else Inr 7000000000000000000),
      bite_encrypt = (\<lambda>_ _. Inr \<lparr>to = Addr ''0x0000000000000000000000000000000000000401'',
                                   data = Some (Hex ''0xencrypted_data'')\<rparr>),
      wallet_send = (\<lambda>_ _. Inr (Some example_hash)),
      rpc_receipt = (\<lambda>_. Inr ()),
      now_ms = 1700000000000\<rparr>"

definition example_chain :: chain where
  "example_chain = \<lparr>allowance = (\<lambda>_ _ _. 0), calls = []\<rparr>"


text \<open>
  A registry with a second chain that a caller configured without a wrapped-native
  token; the configuration check only asks for a chain id and an RPC URL.
\<close>

definition devnet_config :: ChainConfig where
  "devnet_config =
     \<lparr>chainId = ''31337'',
      nativeToken = ''ETH'',
      rpc = ''http://127.0.0.1:8545'',
      explorerUrl = [],
      tokens = [''USDC'' \<mapsto> ''0x5FbDB2315678afecb367f032d93F642f64180aa3''],
      uniswapV2Router = ''0xe7f1725E7734CE288F8367e1Bb143E90bb3F0512''\<rparr>"

definition devnet_wallet :: WalletProvider where
  "devnet_wallet =
     \<lparr>account_address = ''0x742d35Cc6634C0532925a3b844Bc454e4438f44e'',
      biteConfig = manual,
      chains = DEFAULT_PLUGIN_CONFIG(''devnet'' \<mapsto> devnet_config)\<rparr>"

text \<open>The same collaborators with a wallet client whose broadcast returns the empty hash \<open>0x\<close>.\<close>

definition no_hash_net :: network where
  "no_hash_net = example_net\<lparr>wallet_send := (\<lambda>_ _. Inr (Some ''0x''))\<rparr>"

section \<open>Observations on the call log\<close>

text \<open>An approval call is a broadcast whose transaction is an ERC-20 \<open>approve\<close>.\<close>

fun is_approval :: "call \<Rightarrow> bool" where
  "is_approval (WalletSend tx payload) =
     (case tx_data tx of Some (Erc20_approve spender amount) \<Rightarrow> True | _ \<Rightarrow> False)"
| "is_approval _ = False"

definition approvals :: "call list \<Rightarrow> nat" where
  "approvals cs = length (filter is_approval cs)"

fun is_encryption :: "call \<Rightarrow> bool" where
  "is_encryption (EncryptTx r tx) = True"
| "is_encryption _ = False"

text \<open>The transaction that the approval gate builds.\<close>

definition approve_tx ::
  "library \<Rightarrow> ChainConfig \<Rightarrow> addr \<Rightarrow> string \<Rightarrow> int \<Rightarrow> EVMTransaction" where
  "approve_tx lib c tokenAddress spender amount =
     \<lparr>tx_to = tokenAddress, tx_data = Some (Erc20_approve spender amount),
      tx_value = 0, tx_gas = 1000000, tx_gasPrice = 1000000, tx_chainId = Number_toString lib (chainId c)\<rparr>"

text \<open>
  Submissions in the call log. A broadcast is a submission; it is a swap submission when
  its call data is one of the three router swap functions.
\<close>

fun is_router_swap :: "calldata option \<Rightarrow> bool" where
  "is_router_swap (Some (SwapExactETHForTokens amountOutMin path recipient deadline)) = True"
| "is_router_swap (Some (SwapExactTokensForETH amountIn amountOutMin path recipient deadline)) =
     True"
| "is_router_swap (Some (SwapExactTokensForTokens amountIn amountOutMin path recipient deadline)) =
     True"
| "is_router_swap _ = False"

fun is_submission :: "call \<Rightarrow> bool" where
  "is_submission (WalletSend tx payload) = True"
| "is_submission _ = False"

fun is_swap_submission :: "call \<Rightarrow> bool" where
  "is_swap_submission (WalletSend tx payload) = is_router_swap (tx_data tx)"
| "is_swap_submission _ = False"

text \<open>
  A stretch of the call log follows the encryption decision \<open>enc\<close> for the RPC URL \<open>r\<close>
  when each of its calls does: with \<open>enc\<close>, the payload of every broadcast is what the
  encryption collaborator returned for the plain fields of the transaction, and that
  encryption call is in the log, made with \<open>r\<close>; without \<open>enc\<close>, the payload of every
  broadcast is the plain fields of the transaction and the log holds no encryption call.
\<close>

fun submission_ok :: "network \<Rightarrow> string option \<Rightarrow> bool \<Rightarrow> call list \<Rightarrow> call \<Rightarrow> bool" where
  "submission_ok net r enc cs (WalletSend tx payload) =
     (if enc
      then bite_encrypt net r (plain_of tx) = Inr payload \<and> EncryptTx r (plain_of tx) \<in> set cs
      else payload = plain_of tx)"
| "submission_ok net r enc cs (EncryptTx r' tx) = (enc \<and> r' = r)"
| "submission_ok net r enc cs (ReadContract chainName contract functionName) = True"
| "submission_ok net r enc cs (GetBalance chainName holder) = True"
| "submission_ok net r enc cs (WaitForReceipt chainName h) = True"

definition follows_mode :: "network \<Rightarrow> string option \<Rightarrow> bool \<Rightarrow> call list \<Rightarrow> bool" where
  "follows_mode net r enc new = list_all (submission_ok net r enc new) new"

text \<open>
  Proof vocabulary: an action \<open>tracks\<close> the decision when, from every state, it only
  appends to the call log, what it appends follows the decision, and what it appends
  satisfies \<open>P\<close> whenever the action returns normally.
\<close>

definition tracks ::
  "network \<Rightarrow> string option \<Rightarrow> bool \<Rightarrow> (call list \<Rightarrow> bool) \<Rightarrow> 'a action \<Rightarrow> bool" where
  "tracks net r enc P m =
     (\<forall>st. \<exists>new. calls (snd (m st)) = calls st @ new \<and> follows_mode net r enc new \<and>
        ((\<exists>a. fst (m st) = Inr a) \<longrightarrow> P new))"
section \<open>Double arithmetic: rounding stays finite\<close>

lemma round_half_even_bounds:
  "0 \<le> q \<Longrightarrow> 0 \<le> round_half_even q \<and> of_int (round_half_even q) \<le> q + 1"
  unfolding round_half_even_def Let_def
  by (auto simp: not_less) linarith+

lemma pow2_pos: "0 < pow2 e"
  by (simp add: pow2_def)

lemma pow2_powi: "pow2 e = 2 powi e"
  by (simp add: pow2_def power_int_def field_simps)

lemma pow2_mono: "e \<le> e' \<Longrightarrow> pow2 e \<le> pow2 e'"
  by (simp add: pow2_powi power_int_increasing)

lemma pow2_binade_le:
  assumes a: "1 \<le> a"
  shows "pow2 (binade a) \<le> a"
proof -
  let ?n = "nat \<lfloor>a\<rfloor>"
  have n: "0 < ?n" using a by linarith
  from floorlog_bounds[of ?n 2] n have "2 ^ (floorlog 2 ?n - 1) \<le> ?n" by simp
  moreover have "0 < floorlog 2 ?n" using n by (simp add: floorlog_def)
  ultimately have "pow2 (binade a) \<le> of_nat ?n"
    using a by (simp add: binade_def pow2_def nat_diff_distrib')
  also have "\<dots> \<le> a" using a by simp
  finally show ?thesis .
qed

lemma binade_small: "0 < a \<Longrightarrow> a < 1 \<Longrightarrow> binade a \<le> 0"
  by (simp add: binade_def)

lemma binade_large:
  assumes a: "1 \<le> a"
  shows "0 \<le> binade a"
proof -
  have "0 < nat \<lfloor>a\<rfloor>" using a by linarith
  then have "0 < floorlog 2 (nat \<lfloor>a\<rfloor>)" by (simp add: floorlog_def)
  then show ?thesis using a by (simp add: binade_def)
qed

lemma ulp_le:
  assumes "0 < a"
  shows "pow2 (max (binade a) (- 1022) - 52) \<le> max a 1"
proof (cases "1 \<le> a")
  case True
  then have "max (binade a) (- 1022) = binade a" using binade_large[of a] by simp
  moreover have "pow2 (binade a - 52) \<le> pow2 (binade a)" by (rule pow2_mono) simp
  ultimately show ?thesis using pow2_binade_le[OF True] by simp
next
  case False
  then have "binade a \<le> 0" using assms binade_small[of a] by simp
  then have "pow2 (max (binade a) (- 1022) - 52) \<le> pow2 0" by (intro pow2_mono) simp
  then show ?thesis by (simp add: pow2_def max_def)
qed

lemma round_double_finite:
  assumes "\<bar>x\<bar> \<le> 2 ^ 1000"
  shows "\<exists>r. round_double x = Num r \<and> \<bar>r\<bar> \<le> 2 * \<bar>x\<bar> + 1"
proof (cases "x = 0")
  case True
  then show ?thesis by (simp add: round_double_def)
next
  case False
  define a where "a = \<bar>x\<bar>"
  define u where "u = pow2 (max (binade a) (- 1022) - 52)"
  define y where "y = of_int (round_half_even (a / u)) * u"
  have a: "0 < a" using False by (simp add: a_def)
  have u: "0 < u" by (simp add: u_def pow2_pos)
  have ule: "u \<le> max a 1" unfolding u_def by (rule ulp_le[OF a])
  have q: "0 \<le> a / u" using a u by simp
  from round_half_even_bounds[OF q]
  have k0: "0 \<le> round_half_even (a / u)"
    and k1: "of_int (round_half_even (a / u)) \<le> a / u + 1"
    by simp_all
  have y0: "0 \<le> y" using k0 u by (simp add: y_def)
  have "y \<le> (a / u + 1) * u" unfolding y_def using k1 u by (simp add: mult_right_mono)
  also have "\<dots> = a + u" using u by (simp add: field_simps)
  also have "\<dots> \<le> 2 * a + 1" using ule a by (simp add: max_def split: if_splits)
  finally have y1: "y \<le> 2 * a + 1" .
  have "2 * a + 1 < pow2 1024" using assms by (simp add: a_def pow2_def)
  then have fin: "\<not> pow2 1024 \<le> y" using y1 by simp
  have "round_double x = Num (if 0 < x then y else - y)"
    using False fin
    by (simp add: round_double_def Let_def a_def[symmetric] u_def[symmetric] y_def[symmetric])
  then show ?thesis using y0 y1 by (auto simp: a_def)
qed





lemma binade_9950: "binade 9950 = 13"
  by (simp add: binade_def compute_floorlog)

lemma floorlog_99: "floorlog 2 99 = 7"
  by (simp add: compute_floorlog)

lemma binade_99_5: "binade (199 / 2) = 6"
proof -
  have "\<lfloor>199 / 2 :: rat\<rfloor> = 99" by (simp add: floor_eq_iff)
  then show ?thesis by (simp add: binade_def floorlog_99)
qed





lemma round_double_9950: "round_double 9950 = Num 9950"
  by (simp add: round_double_def binade_9950 pow2_def round_half_even_def Let_def)

lemma round_double_99_5: "round_double (199 / 2) = Num (199 / 2)"
  by (simp add: round_double_def binade_99_5 pow2_def round_half_even_def Let_def)

lemma slippageMultiplier_total:
  assumes "0 \<le> s" "s \<le> 50"
  shows "\<exists>m. slippageMultiplier (Num s) = Inr m"
proof -
  have "\<bar>100 - s\<bar> \<le> 2 ^ 1000" using assms by simp
  from round_double_finite[OF this] obtain r1
    where r1: "round_double (100 - s) = Num r1" and b1: "\<bar>r1\<bar> \<le> 2 * \<bar>100 - s\<bar> + 1"
    by blast
  have "\<bar>r1\<bar> \<le> 201" using b1 assms by simp
  then have "\<bar>r1 * 100\<bar> \<le> 2 ^ 1000" by (simp add: abs_mult)
  from round_double_finite[OF this] obtain r2 where r2: "round_double (r1 * 100) = Num r2"
    by blast
  show ?thesis using r1 r2 by (simp add: slippageMultiplier_def js_sub_def)
qed



lemma slippageMultiplier_half: "slippageMultiplier (Num (1 / 2)) = Inr 9950"
  by (simp add: slippageMultiplier_def js_sub_def round_double_99_5 round_double_9950)






















section \<open>Quote calculation\<close>

lemma chain_get_configured:
  "chains wp chainName = Some c \<Longrightarrow> chain_get wp chainName = Some (Configured c)"
  by (simp add: chain_get_def object_get_def)

lemma router_chain_registered:
  "getChainUniswapRouter lib wp chainName = Inr router \<Longrightarrow> \<exists>c. chains wp chainName = Some c"
  by (auto simp: getChainUniswapRouter_def getUniswapAddress_def hasUniswap_def chain_get_def
      object_get_def split: option.splits if_splits)

lemma getClient_registered:
  "chains wp chainName = Some c \<Longrightarrow> getClient lib wp chainName st = (Inr (), st)"
  by (simp add: getClient_def getCurrentChain_def getChainConfig_def chain_get_configured
      ret_def)

lemma calculateAmountOut_quote:
  assumes router: "getChainUniswapRouter lib wp chainName = Inr router"
    and quote: "rpc_getAmountsOut net router amountIn [a, b] = Inr amounts"
    and len: "2 \<le> length amounts"
    and m: "slippageMultiplier sl = Inr m"
  shows "calculateAmountOut lib wp net amountIn a b sl chainName st =
           (Inr (amounts ! 1, bigint_div (amounts ! 1 * m) 10000),
            st\<lparr>calls := calls st @ [ReadContract chainName (Addr router) ''getAmountsOut'']\<rparr>)"
proof -
  from router_chain_registered[OF router] obtain c where c: "chains wp chainName = Some c" ..
  show ?thesis
    using router quote len m getClient_registered[OF c]
    by (simp add: calculateAmountOut_def readContract_def bind_def lift_def log_call_def
        amountsOut_def Let_def)
qed

section \<open>State passing\<close>

lemma bind_ret [simp]: "bind (ret a) f = f a"
  by (rule ext) (simp add: bind_def ret_def)

lemma bind_throw [simp]: "bind (throw e) f = throw e"
  by (rule ext) (simp add: bind_def throw_def)

lemma bind_lift_Inr [simp]: "bind (lift (Inr a)) f = f a"
  by (rule ext) (simp add: bind_def lift_def)

lemma bind_lift_Inl [simp]: "bind (lift (Inl e)) f = throw e"
  by (rule ext) (simp add: bind_def lift_def throw_def)

lemma throw_apply [simp]: "throw e st = (Inl e, st)"
  by (simp add: throw_def)

lemma ret_apply [simp]: "ret a st = (Inr a, st)"
  by (simp add: ret_def)

lemma bind_Pair_Inr [simp]: "bind (Pair (Inr a)) f = f a"
  by (rule ext) (simp add: bind_def)

lemma bind_Pair_Inl [simp]: "bind (Pair (Inl e)) f = Pair (Inl e)"
  by (rule ext) (simp add: bind_def)

lemma bind_log_call [simp]:
  "bind (log_call c) f st = f () (st\<lparr>calls := calls st @ [c]\<rparr>)"
  by (simp add: bind_def log_call_def)

lemma bind_Inr_elim:
  assumes "bind m f st = (Inr b, st')"
  obtains a s1 where "m st = (Inr a, s1)" and "f a s1 = (Inr b, st')"
  using assms by (auto simp: bind_def split: prod.splits sum.splits)

section \<open>Lookups on a configured chain\<close>

lemma getChainConfig_registered:
  "chains wp chainName = Some c \<Longrightarrow> getChainConfig wp chainName = Inr (Configured c)"
  by (simp add: getChainConfig_def chain_get_configured)

lemma getCurrentChain_registered:
  "chains wp chainName = Some c \<Longrightarrow>
   getCurrentChain lib wp chainName =
     Inr \<lparr>chain_id = Number_toString lib (chainId c), chain_name = chainName,
          nativeCurrency_symbol = Some (nativeToken c), rpcUrl = Some (rpc c)\<rparr>"
  by (simp add: getCurrentChain_def getChainConfig_registered)

lemma getClient_bind [simp]:
  "chains wp chainName = Some c \<Longrightarrow> bind (getClient lib wp chainName) f = f ()"
  by (simp add: getClient_def getCurrentChain_registered)

lemma getChainRpc_registered:
  "chains wp chainName = Some c \<Longrightarrow> getChainRpc wp chainName = Inr (Some (rpc c))"
  by (simp add: getChainRpc_def getRPC_def chain_get_configured)

lemma getChainNativetToken_registered:
  "chains wp chainName = Some c \<Longrightarrow>
   getChainNativetToken wp chainName = Inr (Some (nativeToken c))"
  by (simp add: getChainNativetToken_def getChainNativeToken_def chain_get_configured)

lemma getChainToken_registered:
  "chains wp chainName = Some c \<Longrightarrow>
   getChainToken wp chainName t =
     (case object_get (tokens c) t of
        Absent \<Rightarrow> Inl TokenNotRegistered
      | Own a \<Rightarrow> if a = [] then Inl TokenNotRegistered else Inr (Addr a)
      | Inherited \<Rightarrow> Inr (Proto t))"
  by (simp add: getChainToken_def getTokenAddress_def chain_get_configured)

lemma isChainSupported_registered:
  "chains wp chainName = Some c \<Longrightarrow> chainName \<noteq> [] \<Longrightarrow> isChainSupported wp chainName = Inr True"
  by (simp add: isChainSupported_def getChainConfig_registered)

text \<open>No member of \<open>Object.prototype\<close> has a name that begins with \<open>W\<close>.\<close>

lemma object_get_wrapped:
  "object_get obj (CHR ''W'' # s) =
     (case obj (CHR ''W'' # s) of Some v \<Rightarrow> Own v | None \<Rightarrow> Absent)"
  by (simp add: object_get_def Object_prototype_keys_def)

lemma object_get_Some: "obj k = Some v \<Longrightarrow> object_get obj k = Own v"
  by (simp add: object_get_def)

lemma example_chain_registered:
  "chains (example_wallet mode) ''fair-testnet'' = Some DEFAULT_CHAIN_CONFIG"
  by (simp add: example_wallet_def DEFAULT_PLUGIN_CONFIG_def)

lemma example_chain_supported:
  "isChainSupported (example_wallet mode) ''fair-testnet'' = Inr True"
  by (rule isChainSupported_registered[OF example_chain_registered]) simp

lemma resolveTokenAddress_native:
  assumes "chains wp chainName = Some c"
    and "toLowerCase tok = toLowerCase (nativeToken c)"
    and "\<not> startsWith tok ''0x''"
  shows "resolveTokenAddress lib wp tok chainName =
           (case tokens c (''W'' @ nativeToken c) of
              None \<Rightarrow> Inl TokenNotRegistered
            | Some a \<Rightarrow>
                if a = [] then Inl TokenNotRegistered
                else Inr \<lparr>address = Addr a, isNative = True\<rparr>)"
  using assms
  by (simp add: resolveTokenAddress_def getCurrentChain_registered getChainToken_registered
      object_get_wrapped split: option.splits)

lemma resolveTokenAddress_listed:
  assumes "chains wp chainName = Some c"
    and "toLowerCase tok \<noteq> toLowerCase (nativeToken c)"
    and "\<not> startsWith tok ''0x''"
    and "tokens c tok = Some a" and "a \<noteq> []"
  shows "resolveTokenAddress lib wp tok chainName = Inr \<lparr>address = Addr a, isNative = False\<rparr>"
  using assms
  by (simp add: resolveTokenAddress_def getCurrentChain_registered getChainToken_registered
      object_get_Some)

section \<open>The example environment, evaluated\<close>

lemma example_router:
  "getChainUniswapRouter example_lib (example_wallet mode) ''fair-testnet''
     = Inr ''0x05BD86b5e9A6a8E838ef50cAEB96a502271349D0''"
  by (simp add: getChainUniswapRouter_def getUniswapAddress_def hasUniswap_def
      chain_get_configured[OF example_chain_registered] example_lib_def
      DEFAULT_CHAIN_CONFIG_def startsWith_def)

lemma example_current_chain:
  "getCurrentChain example_lib (example_wallet mode) ''fair-testnet'' =
     Inr \<lparr>chain_id = ''1328435889'', chain_name = ''fair-testnet'',
          nativeCurrency_symbol = Some ''FAIR'',
          rpcUrl = Some ''https://testnet-v1.skalenodes.com/v1/idealistic-dual-miram''\<rparr>"
  by (simp add: getCurrentChain_registered[OF example_chain_registered] DEFAULT_CHAIN_CONFIG_def
      example_lib_def)

lemma example_resolve_FAIR:
  "resolveTokenAddress example_lib (example_wallet mode) ''FAIR'' ''fair-testnet'' =
     Inr \<lparr>address = Addr ''0x4706C664ab84B7d6b9a7911cFB47b1f81335b208'', isNative = True\<rparr>"
  by (simp add: resolveTokenAddress_native[OF example_chain_registered] startsWith_def
      DEFAULT_CHAIN_CONFIG_def)

lemma example_resolve_USDC:
  "resolveTokenAddress example_lib (example_wallet mode) ''USDC'' ''fair-testnet'' =
     Inr \<lparr>address = Addr ''0x389E0Ec8a0226E96528761b5954830727d892117'', isNative = False\<rparr>"
  by (rule resolveTokenAddress_listed[OF example_chain_registered])
     (simp_all add: startsWith_def DEFAULT_CHAIN_CONFIG_def toLowerCase_def lower_char_def
        upper_letters_def lower_letters_def)

lemma example_is_address:
  "isAddress example_lib ''0x05BD86b5e9A6a8E838ef50cAEB96a502271349D0''"
  "isAddress example_lib ''0x4706C664ab84B7d6b9a7911cFB47b1f81335b208''"
  "isAddress example_lib ''0x389E0Ec8a0226E96528761b5954830727d892117''"
  "isAddress example_lib ''0x742d35Cc6634C0532925a3b844Bc454e4438f44e''"
  by (simp_all add: example_lib_def startsWith_def)

lemma readContract_registered:
  "chains wp chainName = Some c \<Longrightarrow>
   readContract lib wp chainName contract fn answer st =
     (answer, st\<lparr>calls := calls st @ [ReadContract chainName contract fn]\<rparr>)"
  by (simp add: readContract_def lift_def)

lemma waitForTx_registered:
  "chains wp chainName = Some c \<Longrightarrow>
   waitForTx lib wp net chainName h st =
     (rpc_receipt net h, st\<lparr>calls := calls st @ [WaitForReceipt chainName h]\<rparr>)"
  by (simp add: waitForTx_def lift_def)

lemma sendTransaction_plain:
  assumes "chains wp chainName = Some c"
    and "biteConfig wp = manual" and "\<not> truthy_flag isBite"
  shows "sendTransaction lib wp net chainName tx isBite = broadcast wp net tx (plain_of tx)"
  using assms by (simp add: sendTransaction_def)

lemma sendTransaction_encrypting:
  assumes "chains wp chainName = Some c"
    and "biteConfig wp = automatic \<or> truthy_flag isBite"
  shows "sendTransaction lib wp net chainName tx isBite st =
           (case bite_encrypt net (Some (rpc c)) (plain_of tx) of
              Inl msg \<Rightarrow>
                (Inl (EncryptionFailed msg),
                 st\<lparr>calls := calls st @ [EncryptTx (Some (rpc c)) (plain_of tx)]\<rparr>)
            | Inr enc \<Rightarrow>
                broadcast wp net tx enc
                  (st\<lparr>calls := calls st @ [EncryptTx (Some (rpc c)) (plain_of tx)]\<rparr>))"
  using assms
  by (auto simp: sendTransaction_def getChainRpc_registered encryptTx_def Let_def bind_def
      log_call_def
      split: sum.splits)

lemma example_quote:
  "rpc_getAmountsOut example_net router amountIn path = Inr [amountIn, 500000000000000000]"
  by (simp add: example_net_def)

text \<open>
  The run of \<open>swap\<close> on the example environment for a request of \<open>1.0\<close> FAIR for
  USDC that validation accepts and that is quoted with 0.5 percent.
\<close>

lemma example_swap_run:
  assumes v: "swap_validateAndNormalizeParams example_lib p = Inr ()"
    and s: "swap_slippage p = Num (1 / 2)"
    and p: "swap_chainName p = ''fair-testnet''" "inputToken p = ''FAIR''"
      "outputToken p = ''USDC''" "swap_amount p = ''1.0''" "swap_isBite p = Some False"
  shows "swap example_lib (example_wallet manual) example_net p example_chain
   = (Inr \<lparr>sr_chainName = ''fair-testnet'', sr_txHash = Some example_hash,
           sr_inputToken = ''FAIR'', sr_outputToken = ''USDC'', sr_amountIn = ''1.0'',
           sr_amountOut = ''0.5'', sr_isBite = Some False\<rparr>,
      example_chain\<lparr>calls :=
        [ReadContract ''fair-testnet'' (Addr ''0x4706C664ab84B7d6b9a7911cFB47b1f81335b208'')
           ''decimals'',
         ReadContract ''fair-testnet'' (Addr ''0x389E0Ec8a0226E96528761b5954830727d892117'')
           ''decimals'',
         ReadContract ''fair-testnet'' (Addr ''0x05BD86b5e9A6a8E838ef50cAEB96a502271349D0'')
           ''getAmountsOut'',
         WalletSend
           \<lparr>tx_to = Addr ''0x05BD86b5e9A6a8E838ef50cAEB96a502271349D0'',
            tx_data = Some (SwapExactETHForTokens 497500000000000000
              [''0x4706C664ab84B7d6b9a7911cFB47b1f81335b208'',
               ''0x389E0Ec8a0226E96528761b5954830727d892117'']
              ''0x742d35Cc6634C0532925a3b844Bc454e4438f44e'' 1700000300),
            tx_value = 1000000000000000000, tx_gas = 1000000, tx_gasPrice = 1000000,
            tx_chainId = ''1328435889''\<rparr>
           \<lparr>to = Addr ''0x05BD86b5e9A6a8E838ef50cAEB96a502271349D0'',
            data = Some (SwapExactETHForTokens 497500000000000000
              [''0x4706C664ab84B7d6b9a7911cFB47b1f81335b208'',
               ''0x389E0Ec8a0226E96528761b5954830727d892117'']
              ''0x742d35Cc6634C0532925a3b844Bc454e4438f44e'' 1700000300)\<rparr>,
         WaitForReceipt ''fair-testnet'' (Some example_hash)]\<rparr>)"
proof -
  have d: "rpc_decimals example_net = (\<lambda>_. Inr 18)"
    and pu: "parseUnits example_lib ''1.0'' 18 = Inr 1000000000000000000"
    and fu: "formatUnits example_lib 500000000000000000 18 = ''0.5''"
    and now: "now_ms example_net = 1700000000000"
    and rc: "rpc_receipt example_net = (\<lambda>_. Inr ())"
    and ws: "wallet_send example_net = (\<lambda>_ _. Inr (Some example_hash))"
    by (simp_all add: example_net_def example_lib_def)
  have q: "\<And>st. calculateAmountOut example_lib (example_wallet manual) example_net
             1000000000000000000 (Addr ''0x4706C664ab84B7d6b9a7911cFB47b1f81335b208'')
             (Addr ''0x389E0Ec8a0226E96528761b5954830727d892117'') (Num (1 / 2))
             ''fair-testnet'' st
           = (Inr (500000000000000000, 497500000000000000),
              st\<lparr>calls := calls st @ [ReadContract ''fair-testnet''
                 (Addr ''0x05BD86b5e9A6a8E838ef50cAEB96a502271349D0'') ''getAmountsOut'']\<rparr>)"
    using calculateAmountOut_quote[OF example_router example_quote _ slippageMultiplier_half]
    by (simp add: bigint_div_def)
  have ga: "getAddress (example_wallet manual) = ''0x742d35Cc6634C0532925a3b844Bc454e4438f44e''"
    and bc: "biteConfig (example_wallet manual) = manual"
    by (simp_all add: getAddress_def example_wallet_def)
  have nh: "\<not> no_hash (Some example_hash)"
    by (simp add: no_hash_def example_hash_def)
  have e: "swap_execute example_lib (example_wallet manual) example_net p example_chain
           = (Inr \<lparr>sr_chainName = ''fair-testnet'', sr_txHash = Some example_hash,
           sr_inputToken = ''FAIR'', sr_outputToken = ''USDC'', sr_amountIn = ''1.0'',
           sr_amountOut = ''0.5'', sr_isBite = Some False\<rparr>,
      example_chain\<lparr>calls :=
        [ReadContract ''fair-testnet'' (Addr ''0x4706C664ab84B7d6b9a7911cFB47b1f81335b208'')
           ''decimals'',
         ReadContract ''fair-testnet'' (Addr ''0x389E0Ec8a0226E96528761b5954830727d892117'')
           ''decimals'',
         ReadContract ''fair-testnet'' (Addr ''0x05BD86b5e9A6a8E838ef50cAEB96a502271349D0'')
           ''getAmountsOut'',
         WalletSend
           \<lparr>tx_to = Addr ''0x05BD86b5e9A6a8E838ef50cAEB96a502271349D0'',
            tx_data = Some (SwapExactETHForTokens 497500000000000000
              [''0x4706C664ab84B7d6b9a7911cFB47b1f81335b208'',
               ''0x389E0Ec8a0226E96528761b5954830727d892117'']
              ''0x742d35Cc6634C0532925a3b844Bc454e4438f44e'' 1700000300),
            tx_value = 1000000000000000000, tx_gas = 1000000, tx_gasPrice = 1000000,
            tx_chainId = ''1328435889''\<rparr>
           \<lparr>to = Addr ''0x05BD86b5e9A6a8E838ef50cAEB96a502271349D0'',
            data = Some (SwapExactETHForTokens 497500000000000000
              [''0x4706C664ab84B7d6b9a7911cFB47b1f81335b208'',
               ''0x389E0Ec8a0226E96528761b5954830727d892117'']
              ''0x742d35Cc6634C0532925a3b844Bc454e4438f44e'' 1700000300)\<rparr>,
         WaitForReceipt ''fair-testnet'' (Some example_hash)]\<rparr>)"
    by (simp add: swap_execute_def Let_def p example_resolve_FAIR example_resolve_USDC
        readContract_registered[OF example_chain_registered] bind_def lift_def d pu fu now rc ws
        s q swap_route_def swapETHForTokens_def example_router example_current_chain
        encode_address_def example_is_address
        sendTransaction_plain[OF example_chain_registered bc] truthy_flag_def broadcast_def
        plain_of_def chain_effect_def nh waitForTx_registered[OF example_chain_registered]
        DEFAULT_DEADLINE_MINUTES_def SWAP_GAS_def DEFAULT_GAS_PRICE_def amountStr_def
        includes_dot_def ga example_chain_def)
  show ?thesis
    using v e by (simp add: swap_def p example_chain_supported)
qed

section \<open>Claims\<close>




section \<open>Token resolution\<close>

text \<open>
  Claim C2, as stated, fails: on a registered chain whose token table has no entry under
  \<open>W\<close> + native symbol, resolving the native symbol raises the registry's
  token-not-registered error instead of returning a native token.
\<close>

theorem resolve_native_counterexample:
  "chains devnet_wallet ''devnet'' = Some devnet_config \<and>
   toLowerCase ''ETH'' = toLowerCase (nativeToken devnet_config) \<and>
   resolveTokenAddress example_lib devnet_wallet ''ETH'' ''devnet'' = Inl TokenNotRegistered"
proof -
  have c: "chains devnet_wallet ''devnet'' = Some devnet_config"
    by (simp add: devnet_wallet_def)
  have l: "toLowerCase ''ETH'' = toLowerCase (nativeToken devnet_config)"
    by (simp add: devnet_config_def)
  have n: "\<not> startsWith ''ETH'' ''0x''"
    by (simp add: startsWith_def)
  show ?thesis
    using c l resolveTokenAddress_native[OF c l n, of example_lib] by (simp add: devnet_config_def)
qed

text \<open>
  Claim C2, amended. On a registered chain, a token reference that does not begin with
  \<open>0x\<close> and equals the native symbol case-insensitively resolves through the registry
  entry stored under \<open>W\<close> + native symbol: when that entry exists (and is not empty) the
  result is that address with \<open>isNative = true\<close>, and when it is missing the resolution
  fails with the registry's token-not-registered error.
\<close>

theorem resolve_native_wrapped:
  assumes "chains wp chainName = Some c"
    and "toLowerCase tok = toLowerCase (nativeToken c)"
    and "\<not> startsWith tok ''0x''"
  shows "resolveTokenAddress lib wp tok chainName =
           (case tokens c (''W'' @ nativeToken c) of
              None \<Rightarrow> Inl TokenNotRegistered
            | Some a \<Rightarrow>
                if a = [] then Inl TokenNotRegistered
                else Inr \<lparr>address = Addr a, isNative = True\<rparr>)"
  using assms by (rule resolveTokenAddress_native)

theorem resolve_native_wrapped_witness:
  "chains (example_wallet manual) ''fair-testnet'' = Some DEFAULT_CHAIN_CONFIG \<and>
   toLowerCase ''fair'' = toLowerCase (nativeToken DEFAULT_CHAIN_CONFIG) \<and>
   \<not> startsWith ''fair'' ''0x'' \<and>
   resolveTokenAddress example_lib (example_wallet manual) ''fair'' ''fair-testnet'' =
     Inr \<lparr>address = Addr ''0x4706C664ab84B7d6b9a7911cFB47b1f81335b208'', isNative = True\<rparr>"
proof -
  have c: "chains (example_wallet manual) ''fair-testnet'' = Some DEFAULT_CHAIN_CONFIG"
    by (simp add: example_wallet_def DEFAULT_PLUGIN_CONFIG_def)
  have l: "toLowerCase ''fair'' = toLowerCase (nativeToken DEFAULT_CHAIN_CONFIG)"
    by (simp add: DEFAULT_CHAIN_CONFIG_def toLowerCase_def lower_char_def upper_letters_def lower_letters_def)
  have n: "\<not> startsWith ''fair'' ''0x''"
    by (simp add: startsWith_def)
  from resolve_native_wrapped[OF c l n, of example_lib] show ?thesis
    using c l n by (simp add: DEFAULT_CHAIN_CONFIG_def)
qed




text \<open>
  The registry lookup raises its own error for a name it does not hold and never returns
  an empty value, so the resolver's \<open>Token ... is not supported on ...\<close> error is never
  raised.
\<close>

lemma getTokenAddress_never_empty: "getTokenAddress wp chainName t \<noteq> Inr (Addr [])"
  by (simp add: getTokenAddress_def split: option.splits chain_object.splits property.splits)

lemma resolveTokenAddress_never_unsupported:
  "resolveTokenAddress lib wp tok chainName \<noteq> Inl (UnsupportedToken t n)"
proof -
  have a: "getChainToken wp chainName k \<noteq> Inl (UnsupportedToken t n)" for k
    by (simp add: getChainToken_def getTokenAddress_def
        split: option.splits chain_object.splits property.splits)
  have b: "getCurrentChain lib wp chainName \<noteq> Inl (UnsupportedToken t n)"
    by (simp add: getCurrentChain_def getChainConfig_def
        split: option.splits chain_object.splits sum.splits)
  have c: "getChainToken wp chainName k \<noteq> Inr (Addr [])" for k
    using getTokenAddress_never_empty by (simp add: getChainToken_def)
  show ?thesis
    using a b c
    by (auto simp: resolveTokenAddress_def split: sum.splits option.splits)
qed

section \<open>Swap validation\<close>

lemma swap_validation_error:
  assumes "isChainSupported wp (swap_chainName p) = Inr True"
    and "swap_validateAndNormalizeParams lib p = Inl e"
  shows "swap lib wp net p st = (Inl e, st)"
  using assms by (simp add: swap_def)

text \<open>
  What holds of the validation: on a supported chain, equal tokens fail with
  \<open>SameTokenSwap\<close>, and a request that passes the earlier checks and whose slippage
  compares below 0 or above 50 fails with \<open>InvalidSlippage\<close>, both with the state, log
  included, unchanged.
\<close>

lemma swap_same_token_fails_fast:
  assumes "isChainSupported wp (swap_chainName p) = Inr True"
    and "inputToken p \<noteq> []" and "outputToken p \<noteq> []"
    and "toLowerCase (inputToken p) = toLowerCase (outputToken p)"
  shows "swap lib wp net p st = (Inl SameTokenSwap, st)"
proof -
  have "swap_validateAndNormalizeParams lib p = Inl SameTokenSwap"
    using assms(2-4) by (simp add: swap_validateAndNormalizeParams_def)
  from swap_validation_error[OF assms(1) this] show ?thesis .
qed

lemma swap_compared_slippage_fails_fast:
  assumes "isChainSupported wp (swap_chainName q) = Inr True"
    and "inputToken q \<noteq> []" and "outputToken q \<noteq> []"
    and "toLowerCase (inputToken q) \<noteq> toLowerCase (outputToken q)"
    and "swap_amount q \<noteq> []"
    and "\<not> js_le (parseFloat lib (swap_amount q)) (Num 0)"
    and "slippage q = Some s"
    and "js_lt s (Num 0) \<or> js_gt s (Num 50)"
  shows "swap lib wp net q st = (Inl InvalidSlippage, st)"
proof -
  have "swap_validateAndNormalizeParams lib q = Inl InvalidSlippage"
    using assms(2-8) by (simp add: swap_validateAndNormalizeParams_def)
  from swap_validation_error[OF assms(1) this] show ?thesis .
qed

text \<open>
  Claim C4 says that a given slippage outside \<open>[0, 50]\<close> fails with \<open>InvalidSlippage\<close>
  before any network call. The range test is \<open>slippage < 0 || slippage > 50\<close>, and both
  comparisons are false for \<open>NaN\<close>, which the handler passes when the slippage text does
  not parse (\<open>parseFloat\<close>). The request below is accepted by validation, quoted with the
  default 0.5 percent, and its transaction is broadcast.
\<close>

theorem swap_nan_slippage_accepted:
  "swap_validateAndNormalizeParams example_lib
     \<lparr>swap_chainName = ''fair-testnet'', inputToken = ''FAIR'', outputToken = ''USDC'',
      swap_amount = ''1.0'', slippage = Some NaN, swap_isBite = Some False\<rparr> = Inr () \<and>
   swap_slippage
     \<lparr>swap_chainName = ''fair-testnet'', inputToken = ''FAIR'', outputToken = ''USDC'',
      swap_amount = ''1.0'', slippage = Some NaN, swap_isBite = Some False\<rparr> = Num (1 / 2) \<and>
   swap example_lib (example_wallet manual) example_net
     \<lparr>swap_chainName = ''fair-testnet'', inputToken = ''FAIR'', outputToken = ''USDC'',
      swap_amount = ''1.0'', slippage = Some NaN, swap_isBite = Some False\<rparr>
     example_chain
   = (Inr \<lparr>sr_chainName = ''fair-testnet'', sr_txHash = Some example_hash,
           sr_inputToken = ''FAIR'', sr_outputToken = ''USDC'', sr_amountIn = ''1.0'',
           sr_amountOut = ''0.5'', sr_isBite = Some False\<rparr>,
      example_chain\<lparr>calls :=
        [ReadContract ''fair-testnet'' (Addr ''0x4706C664ab84B7d6b9a7911cFB47b1f81335b208'')
           ''decimals'',
         ReadContract ''fair-testnet'' (Addr ''0x389E0Ec8a0226E96528761b5954830727d892117'')
           ''decimals'',
         ReadContract ''fair-testnet'' (Addr ''0x05BD86b5e9A6a8E838ef50cAEB96a502271349D0'')
           ''getAmountsOut'',
         WalletSend
           \<lparr>tx_to = Addr ''0x05BD86b5e9A6a8E838ef50cAEB96a502271349D0'',
            tx_data = Some (SwapExactETHForTokens 497500000000000000
              [''0x4706C664ab84B7d6b9a7911cFB47b1f81335b208'',
               ''0x389E0Ec8a0226E96528761b5954830727d892117'']
              ''0x742d35Cc6634C0532925a3b844Bc454e4438f44e'' 1700000300),
            tx_value = 1000000000000000000, tx_gas = 1000000, tx_gasPrice = 1000000,
            tx_chainId = ''1328435889''\<rparr>
           \<lparr>to = Addr ''0x05BD86b5e9A6a8E838ef50cAEB96a502271349D0'',
            data = Some (SwapExactETHForTokens 497500000000000000
              [''0x4706C664ab84B7d6b9a7911cFB47b1f81335b208'',
               ''0x389E0Ec8a0226E96528761b5954830727d892117'']
              ''0x742d35Cc6634C0532925a3b844Bc454e4438f44e'' 1700000300)\<rparr>,
         WaitForReceipt ''fair-testnet'' (Some example_hash)]\<rparr>)"
proof -
  let ?p = "\<lparr>swap_chainName = ''fair-testnet'', inputToken = ''FAIR'', outputToken = ''USDC'',
      swap_amount = ''1.0'', slippage = Some NaN, swap_isBite = Some False\<rparr>"
  have v: "swap_validateAndNormalizeParams example_lib ?p = Inr ()"
    by (simp add: swap_validateAndNormalizeParams_def example_lib_def js_le_def js_gt_def
        toLowerCase_def lower_char_def upper_letters_def lower_letters_def)
  have s: "swap_slippage ?p = Num (1 / 2)"
    by (simp add: swap_slippage_def truthy_number_def DEFAULT_SLIPPAGE_def)
  show ?thesis
    using v s example_swap_run[OF v s] by simp
qed

section \<open>Swap execution\<close>

text \<open>
  Claim C3 says that a slippage of 0 given in the request reaches the quote calculation.
  The code computes \<open>params.slippage || DEFAULT_SLIPPAGE\<close>, and 0 is falsy: the request
  below, which validation accepts, is quoted with 0.5 percent. With a quoted output of
  \<open>500000000000000000\<close> the router call carries the minimum \<open>497500000000000000\<close>.
\<close>

theorem swap_zero_slippage_replaced:
  "swap_validateAndNormalizeParams example_lib
     \<lparr>swap_chainName = ''fair-testnet'', inputToken = ''FAIR'', outputToken = ''USDC'',
      swap_amount = ''1.0'', slippage = Some (Num 0), swap_isBite = Some False\<rparr> = Inr () \<and>
   swap_slippage
     \<lparr>swap_chainName = ''fair-testnet'', inputToken = ''FAIR'', outputToken = ''USDC'',
      swap_amount = ''1.0'', slippage = Some (Num 0), swap_isBite = Some False\<rparr> = Num (1 / 2) \<and>
   swap example_lib (example_wallet manual) example_net
     \<lparr>swap_chainName = ''fair-testnet'', inputToken = ''FAIR'', outputToken = ''USDC'',
      swap_amount = ''1.0'', slippage = Some (Num 0), swap_isBite = Some False\<rparr>
     example_chain
   = (Inr \<lparr>sr_chainName = ''fair-testnet'', sr_txHash = Some example_hash,
           sr_inputToken = ''FAIR'', sr_outputToken = ''USDC'', sr_amountIn = ''1.0'',
           sr_amountOut = ''0.5'', sr_isBite = Some False\<rparr>,
      example_chain\<lparr>calls :=
        [ReadContract ''fair-testnet'' (Addr ''0x4706C664ab84B7d6b9a7911cFB47b1f81335b208'')
           ''decimals'',
         ReadContract ''fair-testnet'' (Addr ''0x389E0Ec8a0226E96528761b5954830727d892117'')
           ''decimals'',
         ReadContract ''fair-testnet'' (Addr ''0x05BD86b5e9A6a8E838ef50cAEB96a502271349D0'')
           ''getAmountsOut'',
         WalletSend
           \<lparr>tx_to = Addr ''0x05BD86b5e9A6a8E838ef50cAEB96a502271349D0'',
            tx_data = Some (SwapExactETHForTokens 497500000000000000
              [''0x4706C664ab84B7d6b9a7911cFB47b1f81335b208'',
               ''0x389E0Ec8a0226E96528761b5954830727d892117'']
              ''0x742d35Cc6634C0532925a3b844Bc454e4438f44e'' 1700000300),
            tx_value = 1000000000000000000, tx_gas = 1000000, tx_gasPrice = 1000000,
            tx_chainId = ''1328435889''\<rparr>
           \<lparr>to = Addr ''0x05BD86b5e9A6a8E838ef50cAEB96a502271349D0'',
            data = Some (SwapExactETHForTokens 497500000000000000
              [''0x4706C664ab84B7d6b9a7911cFB47b1f81335b208'',
               ''0x389E0Ec8a0226E96528761b5954830727d892117'']
              ''0x742d35Cc6634C0532925a3b844Bc454e4438f44e'' 1700000300)\<rparr>,
         WaitForReceipt ''fair-testnet'' (Some example_hash)]\<rparr>)"
proof -
  let ?p = "\<lparr>swap_chainName = ''fair-testnet'', inputToken = ''FAIR'', outputToken = ''USDC'',
      swap_amount = ''1.0'', slippage = Some (Num 0), swap_isBite = Some False\<rparr>"
  have v: "swap_validateAndNormalizeParams example_lib ?p = Inr ()"
    by (simp add: swap_validateAndNormalizeParams_def example_lib_def js_le_def js_gt_def
        toLowerCase_def lower_char_def upper_letters_def lower_letters_def)
  have s: "swap_slippage ?p = Num (1 / 2)"
    by (simp add: swap_slippage_def truthy_number_def DEFAULT_SLIPPAGE_def)
  show ?thesis
    using v s example_swap_run[OF v s] by simp
qed

section \<open>Approval gate\<close>

lemma readAllowance_registered:
  "chains wp chainName = Some c \<Longrightarrow>
   readAllowance lib wp chainName tok owner spender st =
     (Inr (allowance st tok owner spender),
      st\<lparr>calls := calls st @ [ReadContract chainName tok ''allowance'']\<rparr>)"
  by (simp add: readAllowance_def)

lemma calls_chain_effect [simp]: "calls (chain_effect owner tx st) = calls st"
  by (simp add: chain_effect_def split: option.splits calldata.splits)

lemma allowance_chain_effect_approve [simp]:
  "allowance (chain_effect owner (approve_tx lib c tok spender amount) st) tok owner spender = amount"
  by (simp add: chain_effect_def approve_tx_def)

lemma sendTransaction_Inr:
  assumes c: "chains wp chainName = Some c"
    and run: "sendTransaction lib wp net chainName tx isBite st = (Inr h, st')"
  shows "\<exists>pre payload.
           st' = chain_effect (getAddress wp) tx
                   (st\<lparr>calls := calls st @ pre @ [WalletSend tx payload]\<rparr>) \<and>
           filter is_approval pre = []"
proof (cases "biteConfig wp = automatic \<or> truthy_flag isBite")
  case True
  show ?thesis
  proof (cases "bite_encrypt net (Some (rpc c)) (plain_of tx)")
    case (Inl msg)
    with run sendTransaction_encrypting[OF c True, where lib = lib and net = net and tx = tx and st = st] show ?thesis by simp
  next
    case (Inr enc)
    with run sendTransaction_encrypting[OF c True, where lib = lib and net = net and tx = tx and st = st]
    have "broadcast wp net tx enc
            (st\<lparr>calls := calls st @ [EncryptTx (Some (rpc c)) (plain_of tx)]\<rparr>)
          = (Inr h, st')" by simp
    then have "st' = chain_effect (getAddress wp) tx
                 (st\<lparr>calls := calls st @ [EncryptTx (Some (rpc c)) (plain_of tx)]
                                  @ [WalletSend tx enc]\<rparr>)"
      by (auto simp: broadcast_def Let_def split: sum.splits)
    moreover have "filter is_approval [EncryptTx (Some (rpc c)) (plain_of tx)] = []"
      by simp
    ultimately show ?thesis by blast
  qed
next
  case False
  then have m: "biteConfig wp = manual" and f: "\<not> truthy_flag isBite"
    by (cases "biteConfig wp"; simp)+
  from run sendTransaction_plain[OF c m f, where lib = lib and net = net and tx = tx]
  have "broadcast wp net tx (plain_of tx) st = (Inr h, st')" by simp
  then have "st' = chain_effect (getAddress wp) tx
               (st\<lparr>calls := calls st @ [] @ [WalletSend tx (plain_of tx)]\<rparr>)"
    by (auto simp: broadcast_def Let_def split: sum.splits)
  moreover have "filter is_approval [] = []" by simp
  ultimately show ?thesis by blast
qed

lemma approveToken_sufficient:
  assumes "chains wp chainName = Some c"
    and "\<not> allowance st tok (getAddress wp) spender < amount"
  shows "approveToken lib wp net tok spender amount chainName isBite st =
           (Inr (), st\<lparr>calls := calls st @ [ReadContract chainName tok ''allowance'']\<rparr>)"
  using assms by (simp add: approveToken_def bind_def readAllowance_registered)

lemma approveToken_insufficient:
  assumes c: "chains wp chainName = Some c"
    and low: "allowance st tok (getAddress wp) spender < amount"
    and run: "approveToken lib wp net tok spender amount chainName isBite st = (Inr (), st1)"
  shows "approvals (calls st1) = approvals (calls st) + 1 \<and>
         (\<exists>payload. WalletSend (approve_tx lib c tok spender amount) payload \<in> set (calls st1)) \<and>
         allowance st1 tok (getAddress wp) spender = amount"
proof -
  let ?st0 = "st\<lparr>calls := calls st @ [ReadContract chainName tok ''allowance'']\<rparr>"
  let ?tx = "approve_tx lib c tok spender amount"
  have ok: "isAddress lib spender"
  proof (rule ccontr)
    assume "\<not> isAddress lib spender"
    then have "approveToken lib wp net tok spender amount chainName isBite st
                 = (Inl InvalidAddressError, ?st0)"
      using c low
      by (simp add: approveToken_def
          bind_def[of "readAllowance lib wp chainName tok (getAddress wp) spender"]
          readAllowance_registered encode_address_def)
    with run show False by simp
  qed
  have "approveToken lib wp net tok spender amount chainName isBite st =
          bind (sendTransaction lib wp net chainName ?tx isBite) (waitForTx lib wp net chainName)
            ?st0"
    using c low ok
    by (simp add: approveToken_def
        bind_def[of "readAllowance lib wp chainName tok (getAddress wp) spender"]
        readAllowance_registered encode_address_def getCurrentChain_registered approve_tx_def
        SWAP_GAS_def DEFAULT_GAS_PRICE_def)
  with run obtain h s1
    where send: "sendTransaction lib wp net chainName ?tx isBite ?st0 = (Inr h, s1)"
      and wait: "waitForTx lib wp net chainName h s1 = (Inr (), st1)"
    by (auto elim: bind_Inr_elim)
  from sendTransaction_Inr[OF c send] obtain pre payload
    where s1: "s1 = chain_effect (getAddress wp) ?tx
                      (?st0\<lparr>calls := calls ?st0 @ pre @ [WalletSend ?tx payload]\<rparr>)"
      and pre: "filter is_approval pre = []" by blast
  from wait have st1: "st1 = s1\<lparr>calls := calls s1 @ [WaitForReceipt chainName h]\<rparr>"
    by (simp add: waitForTx_registered[OF c])
  have a: "is_approval (WalletSend ?tx payload)" by (simp add: approve_tx_def)
  have "calls st1 = calls st @ [ReadContract chainName tok ''allowance''] @ pre
                      @ [WalletSend ?tx payload, WaitForReceipt chainName h]"
    by (simp add: st1 s1)
  then have "approvals (calls st1) = approvals (calls st) + 1"
    and "WalletSend ?tx payload \<in> set (calls st1)"
    using pre a by (simp_all add: approvals_def)
  moreover have "allowance st1 tok (getAddress wp) spender = amount"
    by (simp add: st1 s1)
  ultimately show ?thesis by blast
qed

text \<open>
  Claim C5. Let the approval gate return normally from a state \<open>st\<close>. If the allowance read
  in \<open>st\<close> is strictly less than the amount, exactly one approval was broadcast, it is the
  \<open>approve(spender, amount)\<close> call on the token, and the allowance now equals the amount;
  otherwise nothing was sent and the only call was the allowance read. A second run of the
  gate right after the first broadcasts no approval, so two runs in a row issue at most one.
\<close>

theorem approveToken_idempotent:
  assumes "chains wp chainName = Some c"
    and "approveToken lib wp net tok spender amount chainName isBite st = (Inr (), st1)"
    and "approveToken lib wp net tok spender amount chainName isBite st1 = (r2, st2)"
  shows "(if allowance st tok (getAddress wp) spender < amount
          then approvals (calls st1) = approvals (calls st) + 1 \<and>
               (\<exists>payload. WalletSend (approve_tx lib c tok spender amount) payload
                            \<in> set (calls st1))
          else st1 = st\<lparr>calls := calls st @ [ReadContract chainName tok ''allowance'']\<rparr>) \<and>
         approvals (calls st2) = approvals (calls st1) \<and>
         approvals (calls st2) \<le> approvals (calls st) + 1"
proof -
  have first:
    "if allowance st tok (getAddress wp) spender < amount
     then approvals (calls st1) = approvals (calls st) + 1 \<and>
          (\<exists>payload. WalletSend (approve_tx lib c tok spender amount) payload \<in> set (calls st1)) \<and>
          allowance st1 tok (getAddress wp) spender = amount
     else st1 = st\<lparr>calls := calls st @ [ReadContract chainName tok ''allowance'']\<rparr>"
  proof (cases "allowance st tok (getAddress wp) spender < amount")
    case True
    with approveToken_insufficient[OF assms(1) True assms(2)] show ?thesis by simp
  next
    case False
    with approveToken_sufficient[OF assms(1) False, where net = net and isBite = isBite] assms(2)
    show ?thesis by simp
  qed
  then have enough: "\<not> allowance st1 tok (getAddress wp) spender < amount"
    by (auto split: if_splits)
  from approveToken_sufficient[OF assms(1) enough, where net = net and isBite = isBite] assms(3)
  have "st2 = st1\<lparr>calls := calls st1 @ [ReadContract chainName tok ''allowance'']\<rparr>"
    by simp
  then have second: "approvals (calls st2) = approvals (calls st1)"
    by (simp add: approvals_def)
  have "approvals (calls st1) \<le> approvals (calls st) + 1"
    using first by (auto simp: approvals_def split: if_splits)
  with first second show ?thesis by (auto split: if_splits)
qed

theorem approveToken_idempotent_witness:
  "chains (example_wallet manual) ''fair-testnet'' = Some DEFAULT_CHAIN_CONFIG \<and>
   fst (approveToken example_lib (example_wallet manual) example_net
          (Addr ''0x389E0Ec8a0226E96528761b5954830727d892117'')
          ''0x05BD86b5e9A6a8E838ef50cAEB96a502271349D0'' 1000000000000000000
          ''fair-testnet'' (Some False) example_chain) = Inr () \<and>
   approvals (calls example_chain) = 0 \<and>
   approvals (calls (snd (approveToken example_lib (example_wallet manual) example_net
          (Addr ''0x389E0Ec8a0226E96528761b5954830727d892117'')
          ''0x05BD86b5e9A6a8E838ef50cAEB96a502271349D0'' 1000000000000000000
          ''fair-testnet'' (Some False) example_chain))) = 1 \<and>
   approvals (calls (snd (approveToken example_lib (example_wallet manual) example_net
          (Addr ''0x389E0Ec8a0226E96528761b5954830727d892117'')
          ''0x05BD86b5e9A6a8E838ef50cAEB96a502271349D0'' 1000000000000000000
          ''fair-testnet'' (Some False)
          (snd (approveToken example_lib (example_wallet manual) example_net
             (Addr ''0x389E0Ec8a0226E96528761b5954830727d892117'')
             ''0x05BD86b5e9A6a8E838ef50cAEB96a502271349D0'' 1000000000000000000
             ''fair-testnet'' (Some False) example_chain))))) = 1"
proof -
  let ?A = "approveToken example_lib (example_wallet manual) example_net
          (Addr ''0x389E0Ec8a0226E96528761b5954830727d892117'')
          ''0x05BD86b5e9A6a8E838ef50cAEB96a502271349D0'' 1000000000000000000
          ''fair-testnet'' (Some False)"
  have bc: "biteConfig (example_wallet manual) = manual"
    by (simp add: example_wallet_def)
  have low: "allowance example_chain (Addr ''0x389E0Ec8a0226E96528761b5954830727d892117'')
               (getAddress (example_wallet manual))
               ''0x05BD86b5e9A6a8E838ef50cAEB96a502271349D0'' < 1000000000000000000"
    by (simp add: example_chain_def)
  have ok: "fst (?A example_chain) = Inr ()"
    using low
    by (simp add: approveToken_def bind_def readAllowance_registered[OF example_chain_registered]
        example_current_chain lift_def Let_def encode_address_def example_is_address
        sendTransaction_plain[OF example_chain_registered bc] truthy_flag_def broadcast_def
        waitForTx_registered[OF example_chain_registered] example_net_def)
  then have r1: "?A example_chain = (Inr (), snd (?A example_chain))"
    by (metis prod.collapse)
  have r2: "?A (snd (?A example_chain)) =
              (fst (?A (snd (?A example_chain))), snd (?A (snd (?A example_chain))))"
    by simp
  have z: "approvals (calls example_chain) = 0"
    by (simp add: approvals_def example_chain_def)
  from approveToken_idempotent[OF example_chain_registered r1 r2] low z ok
  show ?thesis by (simp add: example_chain_registered)
qed

section \<open>Transfers\<close>

lemma example_native_token:
  "getChainNativetToken (example_wallet mode) ''fair-testnet'' = Inr (Some ''FAIR'')"
  by (simp add: getChainNativetToken_registered[OF example_chain_registered]
      DEFAULT_CHAIN_CONFIG_def)

lemma example_format_recipient:
  "formatAddress example_lib wp (Some ''0x2CE4EaF47CACFbC6590686f8f7521e0385822334'')
     = ''0x2CE4EaF47CACFbC6590686f8f7521e0385822334''"
  by (simp add: formatAddress_def example_lib_def ascii_trim_def is_space_def startsWith_def
      Let_def)

lemma example_transfer_validate:
  "transfer_validateAndNormalizeParams example_lib wp
     \<lparr>transfer_chainName = ''fair-testnet'', token = Some tok, transfer_amount = Some ''1.0'',
      toAddress = Some (Addr ''0x2CE4EaF47CACFbC6590686f8f7521e0385822334''),
      transfer_data = None, transfer_isBite = Some False\<rparr>
   = Inr \<lparr>transfer_chainName = ''fair-testnet'', token = Some tok,
          transfer_amount = Some ''1.0'',
          toAddress = Some (Promise ''0x2CE4EaF47CACFbC6590686f8f7521e0385822334''),
          transfer_data = None, transfer_isBite = Some False\<rparr>"
proof -
  have "parseFloat example_lib ''1.0'' = Num 1" by (simp add: example_lib_def)
  then show ?thesis
    by (simp add: transfer_validateAndNormalizeParams_def addr_string_def
        example_format_recipient Let_def)
qed

lemma example_native_transfer:
  assumes ws: "wallet_send net = (\<lambda>_ _. Inr h)"
  shows "transfer example_lib (example_wallet manual) net
     \<lparr>transfer_chainName = ''fair-testnet'', token = Some ''FAIR'',
      transfer_amount = Some ''1.0'',
      toAddress = Some (Addr ''0x2CE4EaF47CACFbC6590686f8f7521e0385822334''),
      transfer_data = None, transfer_isBite = Some False\<rparr> example_chain
   = (Inr \<lparr>tr_chainName = ''fair-testnet'', tr_txHash = h,
           tr_recipient = Promise ''0x2CE4EaF47CACFbC6590686f8f7521e0385822334'',
           tr_amount = ''1.0'', tr_token = Some ''FAIR'', tr_isBite = Some False\<rparr>,
      example_chain\<lparr>calls :=
        [WalletSend
           \<lparr>tx_to = Promise ''0x2CE4EaF47CACFbC6590686f8f7521e0385822334'', tx_data = None,
            tx_value = 1000000000000000000, tx_gas = 1000000, tx_gasPrice = 1000000,
            tx_chainId = ''1328435889''\<rparr>
           \<lparr>to = Promise ''0x2CE4EaF47CACFbC6590686f8f7521e0385822334'', data = None\<rparr>]\<rparr>)"
proof -
  have bc: "biteConfig (example_wallet manual) = manual"
    by (simp add: example_wallet_def)
  have lib: "parseEther example_lib ''1.0'' = Inr 1000000000000000000"
    by (simp add: example_lib_def)
  show ?thesis
    by (simp add: transfer_def Let_def example_chain_supported example_native_token
        example_transfer_validate example_current_chain transfer_token_def
        getClient_registered[OF example_chain_registered]
        transfer_native_def parse_amount_def
        lib ws bind_def lift_def sendTransaction_plain[OF example_chain_registered bc]
        truthy_flag_def broadcast_def plain_of_def chain_effect_def amountStr_def
        includes_dot_def TRANSFER_GAS_def DEFAULT_GAS_PRICE_def example_chain_def)
qed

text \<open>
  The ERC-20 branch tests the hash after the broadcast: run on its own with a recipient
  that the ABI coder accepts and a wallet client that answers \<open>0x\<close>, it fails with
  \<open>TransactionNotSubmitted\<close> and waits for no receipt.
\<close>

lemma transfer_erc20_tests_hash:
  "transfer_erc20 example_lib (example_wallet manual) no_hash_net
     \<lparr>transfer_chainName = ''fair-testnet'', token = Some ''USDC'',
      transfer_amount = Some ''1.0'',
      toAddress = Some (Addr ''0x2CE4EaF47CACFbC6590686f8f7521e0385822334''),
      transfer_data = None, transfer_isBite = Some False\<rparr>
     ''USDC'' (Addr ''0x2CE4EaF47CACFbC6590686f8f7521e0385822334'') resp
     \<lparr>tx_to = Addr ''0x2CE4EaF47CACFbC6590686f8f7521e0385822334'', tx_data = None,
      tx_value = 0, tx_gas = 1000000, tx_gasPrice = 1000000, tx_chainId = ''1328435889''\<rparr>
     example_chain
   = (Inl TransactionNotSubmitted,
      example_chain\<lparr>calls :=
        [ReadContract ''fair-testnet'' (Addr ''0x389E0Ec8a0226E96528761b5954830727d892117'')
           ''decimals'',
         WalletSend
           \<lparr>tx_to = Addr ''0x389E0Ec8a0226E96528761b5954830727d892117'',
            tx_data = Some (Erc20_transfer ''0x2CE4EaF47CACFbC6590686f8f7521e0385822334''
                              1000000000000000000),
            tx_value = 0, tx_gas = 1000000, tx_gasPrice = 1000000,
            tx_chainId = ''1328435889''\<rparr>
           \<lparr>to = Addr ''0x389E0Ec8a0226E96528761b5954830727d892117'',
            data = Some (Erc20_transfer ''0x2CE4EaF47CACFbC6590686f8f7521e0385822334''
                           1000000000000000000)\<rparr>]\<rparr>)"
proof -
  have bc: "biteConfig (example_wallet manual) = manual"
    by (simp add: example_wallet_def)
  have net: "wallet_send no_hash_net = (\<lambda>_ _. Inr (Some ''0x''))"
    "rpc_decimals no_hash_net = (\<lambda>_. Inr 18)"
    by (simp_all add: no_hash_net_def example_net_def)
  have lib: "parseUnits example_lib ''1.0'' 18 = Inr 1000000000000000000"
    "isAddress example_lib ''0x2CE4EaF47CACFbC6590686f8f7521e0385822334''"
    by (simp_all add: example_lib_def startsWith_def)
  have usdc: "getChainToken (example_wallet manual) ''fair-testnet'' ''USDC''
                = Inr (Addr ''0x389E0Ec8a0226E96528761b5954830727d892117'')"
    by (simp add: getChainToken_registered[OF example_chain_registered] object_get_def
        DEFAULT_CHAIN_CONFIG_def)
  show ?thesis
    by (simp add: transfer_erc20_def Let_def parse_amount_def encode_address_def
        usdc readContract_registered[OF example_chain_registered]
        lib net bind_def lift_def sendTransaction_plain[OF example_chain_registered bc]
        truthy_flag_def broadcast_def plain_of_def chain_effect_def no_hash_def
        example_chain_def)
qed

text \<open>
  Claim C6 asks that every transfer whose broadcast returns no hash, or the empty hash
  \<open>0x\<close>, fail with \<open>TransactionNotSubmitted\<close>. The ERC-20 branch of \<open>transfer\<close> tests
  the hash; the native branch returns right after the broadcast. With a wallet client that
  answers \<open>0x\<close>, the native transfer of \<open>1.0\<close> FAIR below succeeds with the hash \<open>0x\<close>
  in its result. (The destination of the transaction it broadcasts is the promise that
  \<open>formatAddress\<close> returned; see claim C8.)
\<close>

theorem transfer_native_empty_hash:
  "no_hash (Some ''0x'') \<and>
   transfer example_lib (example_wallet manual) no_hash_net
     \<lparr>transfer_chainName = ''fair-testnet'', token = Some ''FAIR'',
      transfer_amount = Some ''1.0'',
      toAddress = Some (Addr ''0x2CE4EaF47CACFbC6590686f8f7521e0385822334''),
      transfer_data = None, transfer_isBite = Some False\<rparr> example_chain
   = (Inr \<lparr>tr_chainName = ''fair-testnet'', tr_txHash = Some ''0x'',
           tr_recipient = Promise ''0x2CE4EaF47CACFbC6590686f8f7521e0385822334'',
           tr_amount = ''1.0'', tr_token = Some ''FAIR'', tr_isBite = Some False\<rparr>,
      example_chain\<lparr>calls :=
        [WalletSend
           \<lparr>tx_to = Promise ''0x2CE4EaF47CACFbC6590686f8f7521e0385822334'', tx_data = None,
            tx_value = 1000000000000000000, tx_gas = 1000000, tx_gasPrice = 1000000,
            tx_chainId = ''1328435889''\<rparr>
           \<lparr>to = Promise ''0x2CE4EaF47CACFbC6590686f8f7521e0385822334'', data = None\<rparr>]\<rparr>)"
proof -
  have ws: "wallet_send no_hash_net = (\<lambda>_ _. Inr (Some ''0x''))"
    by (simp add: no_hash_net_def)
  have nh: "no_hash (Some ''0x'')" by (simp add: no_hash_def)
  from nh example_native_transfer[OF ws] show ?thesis by (intro conjI)
qed

section \<open>Balances\<close>

text \<open>
  Claim C7 says that a native balance query returns the balance of the supplied address.
  \<open>GetBalanceAction.getBalance\<close> passes only the chain name to
  \<open>WalletProvider.getBalance\<close>, which reads the balance of the provider's own account.
  In the example environment the supplied address holds 7 FAIR and the wallet's account
  1000 FAIR: the response names the supplied address and reports the wallet's 1000. The
  ERC-20 branch does read \<open>balanceOf\<close> of the supplied address.
\<close>

theorem getBalance_native_reads_own_account:
  "rpc_getBalance example_net ''0x2CE4EaF47CACFbC6590686f8f7521e0385822334''
     = Inr 7000000000000000000 \<and>
   formatUnits example_lib 7000000000000000000 18 = ''7'' \<and>
   getBalance example_lib (example_wallet manual) example_net
     \<lparr>balance_chainName = ''fair-testnet'',
      balance_address = Some ''0x2CE4EaF47CACFbC6590686f8f7521e0385822334'',
      balance_token = Some ''FAIR''\<rparr> example_chain
   = (Inr \<lparr>br_chainName = ''fair-testnet'',
           br_address = ''0x2CE4EaF47CACFbC6590686f8f7521e0385822334'',
           br_balance = Some (Some ''FAIR'', ''1000'')\<rparr>,
      example_chain\<lparr>calls :=
        [GetBalance ''fair-testnet'' ''0x742d35Cc6634C0532925a3b844Bc454e4438f44e'']\<rparr>)"
proof -
  have v: "balance_validateAndNormalizeParams (example_wallet manual)
             \<lparr>balance_chainName = ''fair-testnet'',
              balance_address = Some ''0x2CE4EaF47CACFbC6590686f8f7521e0385822334'',
              balance_token = Some ''FAIR''\<rparr>
           = \<lparr>balance_chainName = ''fair-testnet'',
              balance_address = Some ''0x2CE4EaF47CACFbC6590686f8f7521e0385822334'',
              balance_token = Some ''FAIR''\<rparr>"
    by (simp add: balance_validateAndNormalizeParams_def Let_def startsWith_def)
  have own: "account_address (example_wallet manual)
               = ''0x742d35Cc6634C0532925a3b844Bc454e4438f44e''"
    by (simp add: example_wallet_def)
  have up: "toUpperCase ''FAIR'' = ''FAIR''"
    by (simp add: toUpperCase_def upper_char_def upper_letters_def lower_letters_def)
  have b: "wp_getBalance example_lib (example_wallet manual) example_net ''fair-testnet''
             example_chain
           = (Inr ''1000'', example_chain\<lparr>calls :=
                [GetBalance ''fair-testnet'' ''0x742d35Cc6634C0532925a3b844Bc454e4438f44e'']\<rparr>)"
    by (simp add: wp_getBalance_def getClient_bind[OF example_chain_registered] own bind_def
        lift_def log_call_def example_net_def example_lib_def example_chain_def)
  have g: "getBalance example_lib (example_wallet manual) example_net
     \<lparr>balance_chainName = ''fair-testnet'',
      balance_address = Some ''0x2CE4EaF47CACFbC6590686f8f7521e0385822334'',
      balance_token = Some ''FAIR''\<rparr> example_chain
   = (Inr \<lparr>br_chainName = ''fair-testnet'',
           br_address = ''0x2CE4EaF47CACFbC6590686f8f7521e0385822334'',
           br_balance = Some (Some ''FAIR'', ''1000'')\<rparr>,
      example_chain\<lparr>calls :=
        [GetBalance ''fair-testnet'' ''0x742d35Cc6634C0532925a3b844Bc454e4438f44e'']\<rparr>)"
    by (simp add: getBalance_def v Let_def example_current_chain example_native_token up
        bind_def[of "wp_getBalance example_lib (example_wallet manual) example_net ''fair-testnet''"]
        b)
  show ?thesis
    using g by (simp add: example_net_def example_lib_def)
qed

section \<open>Recipient normalization\<close>

text \<open>What the promise returned by \<open>formatAddress\<close> resolves to.\<close>

lemma hex_prefix_not_token:
  assumes "startsWith t ''0x''"
  shows "toUpperCase t \<notin> set commonTokens"
proof -
  from assms obtain rest where "t = CHR ''0'' # CHR ''x'' # rest"
    by (cases t; cases "tl t") (auto simp: startsWith_def)
  then have "hd (toUpperCase t) = CHR ''0''"
    by (simp add: toUpperCase_def upper_char_def upper_letters_def lower_letters_def)
  then show ?thesis
    by (auto simp: commonTokens_def)
qed

lemma formatAddress_Some:
  "formatAddress lib wp (Some a) =
     (if startsWith (trim lib a) ''0x'' then trim lib a else getAddress wp)"
proof (cases "startsWith (trim lib a) ''0x''")
  case True
  then have "trim lib a \<noteq> []" by (auto simp: startsWith_def)
  with True hex_prefix_not_token[OF True] show ?thesis
    by (simp add: formatAddress_def Let_def)
next
  case False
  then show ?thesis by (simp add: formatAddress_def Let_def)
qed

text \<open>
  Validation never leaves a string in the recipient field: whenever it accepts a request,
  the field holds a promise, and the other fields that \<open>transfer\<close> reads are unchanged.
\<close>

lemma transfer_validate_fields:
  assumes "transfer_validateAndNormalizeParams lib wp p = Inr p'"
  shows "(\<exists>a. toAddress p = Some a \<and>
              toAddress p' = Some (Promise (formatAddress lib wp (Some (addr_string a))))) \<and>
         transfer_isBite p' = transfer_isBite p \<and>
         transfer_chainName p' = transfer_chainName p \<and>
         token p' = token p \<and> transfer_amount p' = transfer_amount p"
  using assms
  by (auto simp: transfer_validateAndNormalizeParams_def Let_def
      split: if_splits option.splits sum.splits)

lemma transfer_missing_recipient:
  assumes "chains wp (transfer_chainName q) = Some c" and "transfer_chainName q \<noteq> []"
    and "toAddress q = None \<or> toAddress q = Some (Addr [])"
  shows "transfer lib wp net q st = (Inl MissingRecipient, st)"
proof -
  have "transfer_validateAndNormalizeParams lib wp q = Inl MissingRecipient"
    using assms(3) by (auto simp: transfer_validateAndNormalizeParams_def)
  then show ?thesis
    using isChainSupported_registered[OF assms(1,2)] getChainNativetToken_registered[OF assms(1)]
    by (simp add: transfer_def Let_def)
qed

text \<open>
  Claim C8 says that a 42-character \<open>0x\<close> recipient is used as it is as the
  transaction's destination. \<open>validateAndNormalizeParams\<close> stores the result of the
  \<open>async\<close> \<open>formatAddress\<close> without awaiting it, so the recipient field, the destination
  of the transaction and the recipient of the response are a promise and never the
  normalized string. For the requests below: validation stores the promise; the native
  transfer broadcasts a transaction whose destination is the promise and reports the
  promise as recipient; the ERC-20 transfer is rejected by the ABI coder after the
  decimals read, before any broadcast.
\<close>

theorem transfer_destination_is_promise:
  "transfer_validateAndNormalizeParams example_lib (example_wallet manual)
     \<lparr>transfer_chainName = ''fair-testnet'', token = Some ''FAIR'',
      transfer_amount = Some ''1.0'',
      toAddress = Some (Addr ''0x2CE4EaF47CACFbC6590686f8f7521e0385822334''),
      transfer_data = None, transfer_isBite = Some False\<rparr>
   = Inr \<lparr>transfer_chainName = ''fair-testnet'', token = Some ''FAIR'',
          transfer_amount = Some ''1.0'',
          toAddress = Some (Promise ''0x2CE4EaF47CACFbC6590686f8f7521e0385822334''),
          transfer_data = None, transfer_isBite = Some False\<rparr> \<and>
   transfer example_lib (example_wallet manual) example_net
     \<lparr>transfer_chainName = ''fair-testnet'', token = Some ''FAIR'',
      transfer_amount = Some ''1.0'',
      toAddress = Some (Addr ''0x2CE4EaF47CACFbC6590686f8f7521e0385822334''),
      transfer_data = None, transfer_isBite = Some False\<rparr> example_chain
   = (Inr \<lparr>tr_chainName = ''fair-testnet'', tr_txHash = Some example_hash,
           tr_recipient = Promise ''0x2CE4EaF47CACFbC6590686f8f7521e0385822334'',
           tr_amount = ''1.0'', tr_token = Some ''FAIR'', tr_isBite = Some False\<rparr>,
      example_chain\<lparr>calls :=
        [WalletSend
           \<lparr>tx_to = Promise ''0x2CE4EaF47CACFbC6590686f8f7521e0385822334'', tx_data = None,
            tx_value = 1000000000000000000, tx_gas = 1000000, tx_gasPrice = 1000000,
            tx_chainId = ''1328435889''\<rparr>
           \<lparr>to = Promise ''0x2CE4EaF47CACFbC6590686f8f7521e0385822334'', data = None\<rparr>]\<rparr>) \<and>
   transfer example_lib (example_wallet manual) example_net
     \<lparr>transfer_chainName = ''fair-testnet'', token = Some ''USDC'',
      transfer_amount = Some ''1.0'',
      toAddress = Some (Addr ''0x2CE4EaF47CACFbC6590686f8f7521e0385822334''),
      transfer_data = None, transfer_isBite = Some False\<rparr> example_chain
   = (Inl InvalidAddressError,
      example_chain\<lparr>calls :=
        [ReadContract ''fair-testnet'' (Addr ''0x389E0Ec8a0226E96528761b5954830727d892117'')
           ''decimals'']\<rparr>)"
proof -
  have ws: "wallet_send example_net = (\<lambda>_ _. Inr (Some example_hash))"
    and dec: "rpc_decimals example_net = (\<lambda>_. Inr 18)"
    by (simp_all add: example_net_def)
  have lib: "parseUnits example_lib ''1.0'' 18 = Inr 1000000000000000000"
    by (simp add: example_lib_def)
  have usdc: "getChainToken (example_wallet manual) ''fair-testnet'' ''USDC''
                = Inr (Addr ''0x389E0Ec8a0226E96528761b5954830727d892117'')"
    by (simp add: getChainToken_registered[OF example_chain_registered] object_get_def
        DEFAULT_CHAIN_CONFIG_def)
  have erc20:
    "transfer example_lib (example_wallet manual) example_net
       \<lparr>transfer_chainName = ''fair-testnet'', token = Some ''USDC'',
        transfer_amount = Some ''1.0'',
        toAddress = Some (Addr ''0x2CE4EaF47CACFbC6590686f8f7521e0385822334''),
        transfer_data = None, transfer_isBite = Some False\<rparr> example_chain
     = (Inl InvalidAddressError,
        example_chain\<lparr>calls :=
          [ReadContract ''fair-testnet'' (Addr ''0x389E0Ec8a0226E96528761b5954830727d892117'')
             ''decimals'']\<rparr>)"
    by (simp add: transfer_def Let_def example_chain_supported example_native_token
        example_transfer_validate example_current_chain transfer_token_def
        getClient_registered[OF example_chain_registered]
        transfer_erc20_def parse_amount_def encode_address_def
        usdc readContract_registered[OF example_chain_registered]
        lib dec bind_def lift_def
        toLowerCase_def lower_char_def upper_letters_def lower_letters_def
        example_chain_def)
  from example_transfer_validate[of "example_wallet manual" "''FAIR''"]
    example_native_transfer[OF ws] erc20
  show ?thesis by (intro conjI)
qed

section \<open>Encryption mode\<close>

lemma submission_ok_mono:
  "submission_ok net r enc cs c \<Longrightarrow> set cs \<subseteq> set cs' \<Longrightarrow> submission_ok net r enc cs' c"
  by (cases c) (auto split: if_splits)

lemma follows_mode_Nil [simp]: "follows_mode net r enc []"
  by (simp add: follows_mode_def)

lemma follows_mode_append:
  assumes "follows_mode net r enc x" and "follows_mode net r enc y"
  shows "follows_mode net r enc (x @ y)"
  using assms
  by (auto simp: follows_mode_def list_all_iff intro: submission_ok_mono)

lemma follows_mode_read [simp]: "follows_mode net r enc [ReadContract chainName contract fn]"
  by (simp add: follows_mode_def)

lemma follows_mode_wait [simp]: "follows_mode net r enc [WaitForReceipt chainName h]"
  by (simp add: follows_mode_def)

lemma follows_mode_balance [simp]: "follows_mode net r enc [GetBalance chainName holder]"
  by (simp add: follows_mode_def)

lemma tracks_throw [simp]: "tracks net r enc P (throw e)"
  by (simp add: tracks_def)

lemma tracks_ret: "P [] \<Longrightarrow> tracks net r enc P (ret a)"
  by (simp add: tracks_def)

lemma tracks_lift: "P [] \<Longrightarrow> tracks net r enc P (lift x)"
  by (simp add: tracks_def lift_def)

lemma tracks_weaken:
  "tracks net r enc P m \<Longrightarrow> (\<And>x. P x \<Longrightarrow> P' x) \<Longrightarrow> tracks net r enc P' m"
  unfolding tracks_def by blast

lemma tracks_bind:
  assumes m: "tracks net r enc P1 m"
    and f: "\<And>a. tracks net r enc P2 (f a)"
    and comb: "\<And>x y. P1 x \<Longrightarrow> P2 y \<Longrightarrow> P (x @ y)"
  shows "tracks net r enc P (bind m f)"
  unfolding tracks_def
proof
  fix st
  from m obtain x where x: "calls (snd (m st)) = calls st @ x" "follows_mode net r enc x"
    "(\<exists>a. fst (m st) = Inr a) \<longrightarrow> P1 x"
    unfolding tracks_def by blast
  show "\<exists>new. calls (snd (bind m f st)) = calls st @ new \<and> follows_mode net r enc new \<and>
          ((\<exists>a. fst (bind m f st) = Inr a) \<longrightarrow> P new)"
  proof (cases "m st")
    case (Pair res s1)
    show ?thesis
    proof (cases res)
      case (Inl e)
      with Pair x show ?thesis by (auto simp: bind_def)
    next
      case (Inr a)
      from f[of a] obtain y where y: "calls (snd (f a s1)) = calls s1 @ y"
        "follows_mode net r enc y" "(\<exists>b. fst (f a s1) = Inr b) \<longrightarrow> P2 y"
        unfolding tracks_def by blast
      have b: "bind m f st = f a s1" using Pair Inr by (simp add: bind_def)
      have "calls (snd (bind m f st)) = calls st @ (x @ y)"
        using b x(1) y(1) Pair by simp
      moreover have "follows_mode net r enc (x @ y)"
        using x(2) y(2) by (rule follows_mode_append)
      moreover have "(\<exists>b. fst (bind m f st) = Inr b) \<longrightarrow> P (x @ y)"
        using b x(3) y(3) Pair Inr comb by auto
      ultimately show ?thesis by blast
    qed
  qed
qed

lemma tracks_bind_any:
  assumes "tracks net r enc (\<lambda>_. True) m" and "\<And>a. tracks net r enc (\<lambda>_. True) (f a)"
  shows "tracks net r enc (\<lambda>_. True) (bind m f)"
  using assms by (rule tracks_bind) simp

lemma tracks_bind_pre:
  assumes "tracks net r enc (\<lambda>_. True) m" and "\<And>a. tracks net r enc (list_ex F) (f a)"
  shows "tracks net r enc (list_ex F) (bind m f)"
  using assms by (rule tracks_bind) simp

lemma tracks_bind_post:
  assumes "tracks net r enc (list_ex F) m" and "\<And>a. tracks net r enc (\<lambda>_. True) (f a)"
  shows "tracks net r enc (list_ex F) (bind m f)"
  using assms by (rule tracks_bind) simp

lemma tracks_bind_lift:
  assumes "\<And>a. x = Inr a \<Longrightarrow> tracks net r enc P (f a)"
  shows "tracks net r enc P (bind (lift x) f)"
  using assms by (cases x) simp_all

lemma tracks_catch:
  assumes "tracks net r enc (\<lambda>_. True) m"
  shows "tracks net r enc (\<lambda>_. True)
           (\<lambda>st. case m st of (Inl e, st') \<Rightarrow> (Inl e', st') | (Inr a, st') \<Rightarrow> (Inr a, st'))"
  using assms unfolding tracks_def
  by (auto split: prod.splits sum.splits) (metis snd_conv)+

lemma getClient_silent: "snd (getClient lib wp chainName st) = st"
  by (simp add: getClient_def split: sum.splits option.splits)

lemma tracks_getClient: "tracks net r enc (\<lambda>_. True) (getClient lib wp chainName)"
  by (simp add: tracks_def getClient_silent)

lemma tracks_log_read:
  "tracks net r enc (\<lambda>_. True) (log_call (ReadContract chainName contract fn))"
  by (simp add: tracks_def log_call_def)

lemma tracks_log_wait:
  "tracks net r enc (\<lambda>_. True) (log_call (WaitForReceipt chainName h))"
  by (simp add: tracks_def log_call_def)

lemma tracks_readContract:
  "tracks net r enc (\<lambda>_. True) (readContract lib wp chainName contract fn answer)"
  unfolding readContract_def
  by (intro tracks_bind_any tracks_getClient tracks_log_read tracks_lift) simp

lemma tracks_waitForTx:
  "tracks net r enc (\<lambda>_. True) (waitForTx lib wp net' chainName h)"
  unfolding waitForTx_def
  by (intro tracks_bind_any tracks_getClient tracks_log_wait tracks_lift) simp

lemma tracks_readAllowance:
  "tracks net r enc (\<lambda>_. True) (readAllowance lib wp chainName tok owner spender)"
  unfolding readAllowance_def
  by (intro tracks_bind_any tracks_getClient tracks_log_read) (simp add: tracks_def)

lemma tracks_calculateAmountOut:
  "tracks net r enc (\<lambda>_. True) (calculateAmountOut lib wp net' amountIn a b sl chainName)"
  unfolding calculateAmountOut_def Let_def
  by (intro tracks_bind_lift tracks_catch tracks_bind_any tracks_readContract tracks_lift) simp

lemma broadcast_calls:
  "calls (snd (broadcast wp net tx payload st)) = calls st @ [WalletSend tx payload]"
  by (simp add: broadcast_def Let_def split: sum.splits)

text \<open>
  The decision itself: on a configured chain \<open>sendTransaction\<close> encrypts exactly when
  the mode is automatic or the flag is set, and when it returns normally it has broadcast
  the transaction it was given.
\<close>

lemma tracks_sendTransaction:
  assumes c: "chains wp chainName = Some c"
    and F: "\<And>payload. F (WalletSend tx payload)"
  shows "tracks net (Some (rpc c)) (biteConfig wp = automatic \<or> isBite = Some True)
           (list_ex F) (sendTransaction lib wp net chainName tx isBite)"
  unfolding tracks_def
proof
  fix st
  let ?r = "Some (rpc c)"
  let ?enc = "biteConfig wp = automatic \<or> isBite = Some True"
  let ?S = "sendTransaction lib wp net chainName tx isBite st"
  show "\<exists>new. calls (snd ?S) = calls st @ new \<and> follows_mode net ?r ?enc new \<and>
          ((\<exists>a. fst ?S = Inr a) \<longrightarrow> list_ex F new)"
  proof (cases ?enc)
    case True
    then have t: "biteConfig wp = automatic \<or> truthy_flag isBite"
      by (simp add: truthy_flag_def)
    note eq = sendTransaction_encrypting[OF c t, where lib = lib and net = net and tx = tx
        and st = st]
    show ?thesis
    proof (cases "bite_encrypt net ?r (plain_of tx)")
      case (Inl msg)
      with eq have "calls (snd ?S) = calls st @ [EncryptTx ?r (plain_of tx)]"
        and "fst ?S = Inl (EncryptionFailed msg)"
        by simp_all
      moreover have "follows_mode net ?r ?enc [EncryptTx ?r (plain_of tx)]"
        using True by (simp add: follows_mode_def)
      ultimately show ?thesis by auto
    next
      case (Inr payload)
      with eq have "calls (snd ?S) = calls st @ [EncryptTx ?r (plain_of tx), WalletSend tx payload]"
        by (simp add: broadcast_calls)
      moreover have "follows_mode net ?r ?enc [EncryptTx ?r (plain_of tx), WalletSend tx payload]"
        using True Inr by (simp add: follows_mode_def)
      moreover have "list_ex F [EncryptTx ?r (plain_of tx), WalletSend tx payload]"
        using F by simp
      ultimately show ?thesis by blast
    qed
  next
    case False
    then have m: "biteConfig wp = manual" and f: "\<not> truthy_flag isBite"
      by (cases "biteConfig wp"; simp add: truthy_flag_def)+
    have "calls (snd ?S) = calls st @ [WalletSend tx (plain_of tx)]"
      by (simp add: sendTransaction_plain[OF c m f] broadcast_calls)
    moreover have "follows_mode net ?r ?enc [WalletSend tx (plain_of tx)]"
      using False by (simp add: follows_mode_def)
    moreover have "list_ex F [WalletSend tx (plain_of tx)]"
      using F by simp
    ultimately show ?thesis by blast
  qed
qed

lemma tracks_sendTransaction_any:
  assumes c: "chains wp chainName = Some c"
  shows "tracks net (Some (rpc c)) (biteConfig wp = automatic \<or> isBite = Some True)
           (\<lambda>_. True) (sendTransaction lib wp net chainName tx isBite)"
  by (rule tracks_weaken[OF tracks_sendTransaction[OF c, where F = is_submission]]) simp_all

lemma tracks_approveToken:
  assumes c: "chains wp chainName = Some c"
  shows "tracks net (Some (rpc c)) (biteConfig wp = automatic \<or> isBite = Some True)
           (\<lambda>_. True) (approveToken lib wp net tok spender amount chainName isBite)"
  unfolding approveToken_def Let_def
  by (intro tracks_bind_any tracks_readAllowance)
     (auto intro!: tracks_bind_lift tracks_bind_any tracks_sendTransaction_any[OF c]
        tracks_waitForTx tracks_ret)

lemma tracks_swapETHForTokens:
  assumes c: "chains wp chainName = Some c"
  shows "tracks net (Some (rpc c)) (biteConfig wp = automatic \<or> isBite = Some True)
           (list_ex is_swap_submission)
           (swapETHForTokens lib wp net amountIn amountOutMin a b recipient deadline chainName
              isBite)"
  unfolding swapETHForTokens_def Let_def
  by (intro tracks_bind_lift tracks_sendTransaction[OF c]) simp_all

lemma tracks_swapTokensForETH:
  assumes c: "chains wp chainName = Some c"
  shows "tracks net (Some (rpc c)) (biteConfig wp = automatic \<or> isBite = Some True)
           (list_ex is_swap_submission)
           (swapTokensForETH lib wp net amountIn amountOutMin a b recipient deadline chainName
              isBite)"
  unfolding swapTokensForETH_def Let_def
  by (intro tracks_bind_lift tracks_bind_pre tracks_approveToken[OF c]
        tracks_sendTransaction[OF c]) simp_all

lemma tracks_swapTokensForTokens:
  assumes c: "chains wp chainName = Some c"
  shows "tracks net (Some (rpc c)) (biteConfig wp = automatic \<or> isBite = Some True)
           (list_ex is_swap_submission)
           (swapTokensForTokens lib wp net amountIn amountOutMin a b recipient deadline chainName
              isBite)"
  unfolding swapTokensForTokens_def Let_def
  by (intro tracks_bind_lift tracks_bind_pre tracks_approveToken[OF c]
        tracks_sendTransaction[OF c]) simp_all

lemma tracks_swap_route:
  assumes c: "chains wp chainName = Some c"
  shows "tracks net (Some (rpc c)) (biteConfig wp = automatic \<or> isBite = Some True)
           (list_ex is_swap_submission)
           (swap_route lib wp net i o' amountIn amountOutMin fromAddress deadline chainName
              isBite)"
  unfolding swap_route_def
  by (simp add: tracks_swapETHForTokens[OF c] tracks_swapTokensForETH[OF c]
      tracks_swapTokensForTokens[OF c])

lemma tracks_swap_execute:
  assumes c: "chains wp (swap_chainName p) = Some c"
  shows "tracks net (Some (rpc c)) (biteConfig wp = automatic \<or> swap_isBite p = Some True)
           (list_ex is_swap_submission) (swap_execute lib wp net p)"
  unfolding swap_execute_def Let_def
  apply (intro tracks_bind_lift tracks_bind_pre tracks_readContract tracks_calculateAmountOut)
  apply (simp only: split_def)
  apply (rule tracks_bind_post[OF tracks_swap_route[OF c]])
  apply (auto intro!: tracks_bind_any tracks_waitForTx tracks_ret)
  done

lemma tracks_swap:
  assumes c: "chains wp (swap_chainName p) = Some c"
  shows "tracks net (Some (rpc c)) (biteConfig wp = automatic \<or> swap_isBite p = Some True)
           (list_ex is_swap_submission) (swap lib wp net p)"
  unfolding swap_def
  by (intro tracks_bind_lift) (auto intro!: tracks_bind_lift tracks_swap_execute[OF c])

lemma tracks_unless:
  "tracks net r enc P m \<Longrightarrow> tracks net r enc P (if \<not> a then throw e else m)"
  by simp

lemma tracks_transfer_native:
  assumes c: "chains wp (transfer_chainName params) = Some c"
  shows "tracks net (Some (rpc c)) (biteConfig wp = automatic \<or> transfer_isBite params = Some True)
           (list_ex is_submission) (transfer_native lib wp net params resp tx)"
  unfolding transfer_native_def
  by (intro tracks_bind_lift tracks_bind_post[OF tracks_sendTransaction[OF c]] tracks_ret)
     simp_all

lemma tracks_transfer_erc20:
  assumes c: "chains wp (transfer_chainName params) = Some c"
  shows "tracks net (Some (rpc c)) (biteConfig wp = automatic \<or> transfer_isBite params = Some True)
           (list_ex is_submission) (transfer_erc20 lib wp net params tok recipient resp tx)"
  unfolding transfer_erc20_def Let_def
  apply (intro tracks_bind_lift tracks_bind_pre[OF tracks_readContract])
  apply (rule tracks_bind_post[OF tracks_sendTransaction[OF c]])
   apply simp
  apply (auto intro!: tracks_bind_any tracks_log_wait tracks_lift tracks_ret)
  done

lemma tracks_transfer:
  assumes c: "chains wp (transfer_chainName p) = Some c"
  shows "tracks net (Some (rpc c)) (biteConfig wp = automatic \<or> transfer_isBite p = Some True)
           (list_ex is_submission) (transfer lib wp net p)"
proof -
  have body: "tracks net (Some (rpc c))
                (biteConfig wp = automatic \<or> transfer_isBite p = Some True)
                (list_ex is_submission)
                (if A then transfer_native lib wp net params resp tx
                 else if B then transfer_native lib wp net params resp' tx
                 else transfer_erc20 lib wp net params tok recipient resp tx)"
    if "transfer_validateAndNormalizeParams lib wp p = Inr params"
    for params A B resp resp' tx tok recipient
  proof -
    from transfer_validate_fields[OF that]
    have "transfer_chainName params = transfer_chainName p"
      and "transfer_isBite params = transfer_isBite p" by simp_all
    with c tracks_transfer_native[of wp params c net lib]
      tracks_transfer_erc20[of wp params c net lib]
    show ?thesis by simp
  qed
  show ?thesis
    unfolding transfer_def Let_def
    apply (rule tracks_bind_lift)
    apply (rule tracks_unless)
    apply (intro tracks_bind_lift tracks_bind_pre[OF tracks_getClient] body)
    apply assumption
    done
qed

section \<open>The flag is echoed\<close>

lemma swap_execute_echo:
  assumes "swap_execute lib wp net p st = (Inr resp, st')"
  shows "sr_isBite resp = swap_isBite p"
  using assms unfolding swap_execute_def Let_def
  by (elim bind_Inr_elim) (auto split: prod.splits if_splits elim!: bind_Inr_elim)

lemma swap_echo:
  assumes "swap lib wp net p st = (Inr resp, st')"
  shows "sr_isBite resp = swap_isBite p"
  using assms unfolding swap_def
  by (elim bind_Inr_elim) (auto split: if_splits elim!: bind_Inr_elim dest: swap_execute_echo)

lemma transfer_native_echo:
  assumes "transfer_native lib wp net params resp0 tx st = (Inr resp, st')"
  shows "tr_isBite resp = tr_isBite resp0"
  using assms unfolding transfer_native_def
  by (elim bind_Inr_elim) auto

lemma transfer_erc20_echo:
  assumes "transfer_erc20 lib wp net params tok recipient resp0 tx st = (Inr resp, st')"
  shows "tr_isBite resp = tr_isBite resp0"
  using assms unfolding transfer_erc20_def Let_def
  by (elim bind_Inr_elim) (auto split: if_splits elim!: bind_Inr_elim)

lemma transfer_validate_isBite:
  "transfer_validateAndNormalizeParams lib wp p = Inr p' \<Longrightarrow>
   transfer_isBite p' = transfer_isBite p"
  by (simp add: transfer_validate_fields)

lemma transfer_echo:
  assumes "transfer lib wp net p st = (Inr resp, st')"
  shows "tr_isBite resp = transfer_isBite p"
  using assms unfolding transfer_def Let_def
  by (elim bind_Inr_elim)
     (auto split: if_splits elim!: bind_Inr_elim
        dest!: transfer_native_echo transfer_erc20_echo transfer_validate_isBite
        simp: lift_def)

section \<open>The example environment in automatic mode\<close>

lemma example_swap_automatic:
  "swap example_lib (example_wallet automatic) example_net
     \<lparr>swap_chainName = ''fair-testnet'', inputToken = ''FAIR'', outputToken = ''USDC'',
      swap_amount = ''1.0'', slippage = None, swap_isBite = Some False\<rparr> example_chain
   = (Inr \<lparr>sr_chainName = ''fair-testnet'', sr_txHash = Some example_hash,
           sr_inputToken = ''FAIR'', sr_outputToken = ''USDC'', sr_amountIn = ''1.0'',
           sr_amountOut = ''0.5'', sr_isBite = Some False\<rparr>,
      example_chain\<lparr>calls :=
        [ReadContract ''fair-testnet'' (Addr ''0x4706C664ab84B7d6b9a7911cFB47b1f81335b208'')
           ''decimals'',
         ReadContract ''fair-testnet'' (Addr ''0x389E0Ec8a0226E96528761b5954830727d892117'')
           ''decimals'',
         ReadContract ''fair-testnet'' (Addr ''0x05BD86b5e9A6a8E838ef50cAEB96a502271349D0'')
           ''getAmountsOut'',
         EncryptTx (Some ''https://testnet-v1.skalenodes.com/v1/idealistic-dual-miram'')
           \<lparr>to = Addr ''0x05BD86b5e9A6a8E838ef50cAEB96a502271349D0'',
            data = Some (SwapExactETHForTokens 497500000000000000
              [''0x4706C664ab84B7d6b9a7911cFB47b1f81335b208'',
               ''0x389E0Ec8a0226E96528761b5954830727d892117'']
              ''0x742d35Cc6634C0532925a3b844Bc454e4438f44e'' 1700000300)\<rparr>,
         WalletSend
           \<lparr>tx_to = Addr ''0x05BD86b5e9A6a8E838ef50cAEB96a502271349D0'',
            tx_data = Some (SwapExactETHForTokens 497500000000000000
              [''0x4706C664ab84B7d6b9a7911cFB47b1f81335b208'',
               ''0x389E0Ec8a0226E96528761b5954830727d892117'']
              ''0x742d35Cc6634C0532925a3b844Bc454e4438f44e'' 1700000300),
            tx_value = 1000000000000000000, tx_gas = 1000000, tx_gasPrice = 1000000,
            tx_chainId = ''1328435889''\<rparr>
           \<lparr>to = Addr ''0x0000000000000000000000000000000000000401'',
            data = Some (Hex ''0xencrypted_data'')\<rparr>,
         WaitForReceipt ''fair-testnet'' (Some example_hash)]\<rparr>)"
proof -
  let ?p = "\<lparr>swap_chainName = ''fair-testnet'', inputToken = ''FAIR'', outputToken = ''USDC'',
      swap_amount = ''1.0'', slippage = None, swap_isBite = Some False\<rparr>"
  have v: "swap_validateAndNormalizeParams example_lib ?p = Inr ()"
    by (simp add: swap_validateAndNormalizeParams_def example_lib_def js_le_def
        toLowerCase_def lower_char_def upper_letters_def lower_letters_def)
  have s: "swap_slippage ?p = Num (1 / 2)"
    by (simp add: swap_slippage_def DEFAULT_SLIPPAGE_def)
  have d: "rpc_decimals example_net = (\<lambda>_. Inr 18)"
    and pu: "parseUnits example_lib ''1.0'' 18 = Inr 1000000000000000000"
    and fu: "formatUnits example_lib 500000000000000000 18 = ''0.5''"
    and now: "now_ms example_net = 1700000000000"
    and rc: "rpc_receipt example_net = (\<lambda>_. Inr ())"
    and ws: "wallet_send example_net = (\<lambda>_ _. Inr (Some example_hash))"
    and be: "bite_encrypt example_net =
               (\<lambda>_ _. Inr \<lparr>to = Addr ''0x0000000000000000000000000000000000000401'',
                            data = Some (Hex ''0xencrypted_data'')\<rparr>)"
    by (simp_all add: example_net_def example_lib_def)
  have q: "\<And>st. calculateAmountOut example_lib (example_wallet automatic) example_net
             1000000000000000000 (Addr ''0x4706C664ab84B7d6b9a7911cFB47b1f81335b208'')
             (Addr ''0x389E0Ec8a0226E96528761b5954830727d892117'') (Num (1 / 2))
             ''fair-testnet'' st
           = (Inr (500000000000000000, 497500000000000000),
              st\<lparr>calls := calls st @ [ReadContract ''fair-testnet''
                 (Addr ''0x05BD86b5e9A6a8E838ef50cAEB96a502271349D0'') ''getAmountsOut'']\<rparr>)"
    using calculateAmountOut_quote[OF example_router example_quote _ slippageMultiplier_half]
    by (simp add: bigint_div_def)
  have ga: "getAddress (example_wallet automatic)
              = ''0x742d35Cc6634C0532925a3b844Bc454e4438f44e''"
    by (simp add: getAddress_def example_wallet_def)
  have bc: "biteConfig (example_wallet automatic) = automatic \<or> truthy_flag (Some False)"
    by (simp add: example_wallet_def)
  have nh: "\<not> no_hash (Some example_hash)"
    by (simp add: no_hash_def example_hash_def)
  have "swap_execute example_lib (example_wallet automatic) example_net ?p example_chain
        = (Inr \<lparr>sr_chainName = ''fair-testnet'', sr_txHash = Some example_hash,
           sr_inputToken = ''FAIR'', sr_outputToken = ''USDC'', sr_amountIn = ''1.0'',
           sr_amountOut = ''0.5'', sr_isBite = Some False\<rparr>,
      example_chain\<lparr>calls :=
        [ReadContract ''fair-testnet'' (Addr ''0x4706C664ab84B7d6b9a7911cFB47b1f81335b208'')
           ''decimals'',
         ReadContract ''fair-testnet'' (Addr ''0x389E0Ec8a0226E96528761b5954830727d892117'')
           ''decimals'',
         ReadContract ''fair-testnet'' (Addr ''0x05BD86b5e9A6a8E838ef50cAEB96a502271349D0'')
           ''getAmountsOut'',
         EncryptTx (Some ''https://testnet-v1.skalenodes.com/v1/idealistic-dual-miram'')
           \<lparr>to = Addr ''0x05BD86b5e9A6a8E838ef50cAEB96a502271349D0'',
            data = Some (SwapExactETHForTokens 497500000000000000
              [''0x4706C664ab84B7d6b9a7911cFB47b1f81335b208'',
               ''0x389E0Ec8a0226E96528761b5954830727d892117'']
              ''0x742d35Cc6634C0532925a3b844Bc454e4438f44e'' 1700000300)\<rparr>,
         WalletSend
           \<lparr>tx_to = Addr ''0x05BD86b5e9A6a8E838ef50cAEB96a502271349D0'',
            tx_data = Some (SwapExactETHForTokens 497500000000000000
              [''0x4706C664ab84B7d6b9a7911cFB47b1f81335b208'',
               ''0x389E0Ec8a0226E96528761b5954830727d892117'']
              ''0x742d35Cc6634C0532925a3b844Bc454e4438f44e'' 1700000300),
            tx_value = 1000000000000000000, tx_gas = 1000000, tx_gasPrice = 1000000,
            tx_chainId = ''1328435889''\<rparr>
           \<lparr>to = Addr ''0x0000000000000000000000000000000000000401'',
            data = Some (Hex ''0xencrypted_data'')\<rparr>,
         WaitForReceipt ''fair-testnet'' (Some example_hash)]\<rparr>)"
    by (simp add: swap_execute_def Let_def example_resolve_FAIR example_resolve_USDC
        readContract_registered[OF example_chain_registered] bind_def lift_def d pu fu now rc ws
        be s q swap_route_def swapETHForTokens_def example_router example_current_chain
        encode_address_def example_is_address
        sendTransaction_encrypting[OF example_chain_registered bc] broadcast_def
        plain_of_def chain_effect_def nh waitForTx_registered[OF example_chain_registered]
        DEFAULT_DEADLINE_MINUTES_def SWAP_GAS_def DEFAULT_GAS_PRICE_def amountStr_def
        includes_dot_def ga example_chain_def DEFAULT_CHAIN_CONFIG_def)
  then show ?thesis
    using v by (simp add: swap_def example_chain_supported)
qed

lemma example_transfer_automatic:
  "transfer example_lib (example_wallet automatic) example_net
     \<lparr>transfer_chainName = ''fair-testnet'', token = Some ''FAIR'',
      transfer_amount = Some ''1.0'',
      toAddress = Some (Addr ''0x2CE4EaF47CACFbC6590686f8f7521e0385822334''),
      transfer_data = None, transfer_isBite = Some False\<rparr> example_chain
   = (Inr \<lparr>tr_chainName = ''fair-testnet'', tr_txHash = Some example_hash,
           tr_recipient = Promise ''0x2CE4EaF47CACFbC6590686f8f7521e0385822334'',
           tr_amount = ''1.0'', tr_token = Some ''FAIR'', tr_isBite = Some False\<rparr>,
      example_chain\<lparr>calls :=
        [EncryptTx (Some ''https://testnet-v1.skalenodes.com/v1/idealistic-dual-miram'')
           \<lparr>to = Promise ''0x2CE4EaF47CACFbC6590686f8f7521e0385822334'', data = None\<rparr>,
         WalletSend
           \<lparr>tx_to = Promise ''0x2CE4EaF47CACFbC6590686f8f7521e0385822334'', tx_data = None,
            tx_value = 1000000000000000000, tx_gas = 1000000, tx_gasPrice = 1000000,
            tx_chainId = ''1328435889''\<rparr>
           \<lparr>to = Addr ''0x0000000000000000000000000000000000000401'',
            data = Some (Hex ''0xencrypted_data'')\<rparr>]\<rparr>)"
proof -
  have bc: "biteConfig (example_wallet automatic) = automatic \<or> truthy_flag (Some False)"
    by (simp add: example_wallet_def)
  have net: "wallet_send example_net = (\<lambda>_ _. Inr (Some example_hash))"
    "bite_encrypt example_net =
       (\<lambda>_ _. Inr \<lparr>to = Addr ''0x0000000000000000000000000000000000000401'',
                    data = Some (Hex ''0xencrypted_data'')\<rparr>)"
    by (simp_all add: example_net_def)
  have lib: "parseEther example_lib ''1.0'' = Inr 1000000000000000000"
    by (simp add: example_lib_def)
  show ?thesis
    by (simp add: transfer_def Let_def example_chain_supported example_native_token
        example_transfer_validate example_current_chain transfer_token_def
        getClient_registered[OF example_chain_registered]
        transfer_native_def parse_amount_def
        lib net bind_def lift_def sendTransaction_encrypting[OF example_chain_registered bc]
        broadcast_def plain_of_def chain_effect_def amountStr_def includes_dot_def
        TRANSFER_GAS_def DEFAULT_GAS_PRICE_def example_chain_def DEFAULT_CHAIN_CONFIG_def)
qed

text \<open>
  Claim C10. On a configured chain, \<open>sendTransaction\<close> asks the encryption collaborator
  exactly when the provider's mode is automatic or the request flag is set, and the
  payload it then broadcasts is the encrypted transaction, the plain one otherwise. Swap
  and transfer submit through it with the flag of their request: whatever a run of
  \<open>swap\<close> or \<open>transfer\<close> adds to the call log, failed runs included, every broadcast in
  it carries the collaborator's encryption of the transaction (requested with the chain's
  RPC URL) when the mode is automatic or the request's flag is set, and the plain
  transaction, with no encryption call at all, otherwise. A run that returns normally has
  broadcast a transaction (a router swap for \<open>swap\<close>) and echoes the request's own flag in
  its result, in either mode.
\<close>

theorem encryption_decision:
  assumes "chains wp chainName = Some c"
    and "swap_chainName p = chainName"
    and "transfer_chainName tp = chainName"
  shows "sendTransaction lib wp net chainName tx isBite st0 =
           (if biteConfig wp = automatic \<or> isBite = Some True then
              (case bite_encrypt net (Some (rpc c)) (plain_of tx) of
                 Inl msg \<Rightarrow>
                   (Inl (EncryptionFailed msg),
                    st0\<lparr>calls := calls st0 @ [EncryptTx (Some (rpc c)) (plain_of tx)]\<rparr>)
               | Inr enc \<Rightarrow>
                   broadcast wp net tx enc
                     (st0\<lparr>calls := calls st0 @ [EncryptTx (Some (rpc c)) (plain_of tx)]\<rparr>))
            else broadcast wp net tx (plain_of tx) st0) \<and>
         (\<exists>new. calls (snd (swap lib wp net p st)) = calls st @ new \<and>
            follows_mode net (Some (rpc c))
              (biteConfig wp = automatic \<or> swap_isBite p = Some True) new \<and>
            (case fst (swap lib wp net p st) of
               Inl e \<Rightarrow> True
             | Inr resp \<Rightarrow> list_ex is_swap_submission new \<and> sr_isBite resp = swap_isBite p)) \<and>
         (\<exists>new. calls (snd (transfer lib wp net tp st)) = calls st @ new \<and>
            follows_mode net (Some (rpc c))
              (biteConfig wp = automatic \<or> transfer_isBite tp = Some True) new \<and>
            (case fst (transfer lib wp net tp st) of
               Inl e \<Rightarrow> True
             | Inr resp \<Rightarrow> list_ex is_submission new \<and> tr_isBite resp = transfer_isBite tp))"
proof -
  have eq: "sendTransaction lib wp net chainName tx isBite st0 =
           (if biteConfig wp = automatic \<or> isBite = Some True then
              (case bite_encrypt net (Some (rpc c)) (plain_of tx) of
                 Inl msg \<Rightarrow>
                   (Inl (EncryptionFailed msg),
                    st0\<lparr>calls := calls st0 @ [EncryptTx (Some (rpc c)) (plain_of tx)]\<rparr>)
               | Inr enc \<Rightarrow>
                   broadcast wp net tx enc
                     (st0\<lparr>calls := calls st0 @ [EncryptTx (Some (rpc c)) (plain_of tx)]\<rparr>))
            else broadcast wp net tx (plain_of tx) st0)"
  proof (cases "biteConfig wp = automatic \<or> truthy_flag isBite")
    case True
    with sendTransaction_encrypting[OF assms(1) True, where lib = lib and net = net
        and tx = tx and st = st0]
    show ?thesis by (simp add: truthy_flag_def)
  next
    case False
    then have m: "biteConfig wp = manual" and f: "\<not> truthy_flag isBite"
      by (cases "biteConfig wp"; simp)+
    with sendTransaction_plain[OF assms(1) m f, where lib = lib and net = net and tx = tx]
      False
    show ?thesis by (simp add: truthy_flag_def)
  qed
  have cs: "chains wp (swap_chainName p) = Some c"
    and ct: "chains wp (transfer_chainName tp) = Some c"
    using assms by simp_all
  from tracks_swap[OF cs, of net lib] obtain new
    where s: "calls (snd (swap lib wp net p st)) = calls st @ new"
      "follows_mode net (Some (rpc c)) (biteConfig wp = automatic \<or> swap_isBite p = Some True)
         new"
      "(\<exists>a. fst (swap lib wp net p st) = Inr a) \<longrightarrow> list_ex is_swap_submission new"
    unfolding tracks_def by blast
  have s': "case fst (swap lib wp net p st) of
              Inl e \<Rightarrow> True
            | Inr resp \<Rightarrow> list_ex is_swap_submission new \<and> sr_isBite resp = swap_isBite p"
  proof (cases "fst (swap lib wp net p st)")
    case (Inl e)
    then show ?thesis by simp
  next
    case (Inr resp)
    then have "swap lib wp net p st = (Inr resp, snd (swap lib wp net p st))"
      by (metis prod.collapse)
    from swap_echo[OF this] s(3) Inr show ?thesis by simp
  qed
  from tracks_transfer[OF ct, of net lib] obtain new'
    where t: "calls (snd (transfer lib wp net tp st)) = calls st @ new'"
      "follows_mode net (Some (rpc c))
         (biteConfig wp = automatic \<or> transfer_isBite tp = Some True) new'"
      "(\<exists>a. fst (transfer lib wp net tp st) = Inr a) \<longrightarrow> list_ex is_submission new'"
    unfolding tracks_def by blast
  have t': "case fst (transfer lib wp net tp st) of
              Inl e \<Rightarrow> True
            | Inr resp \<Rightarrow> list_ex is_submission new' \<and> tr_isBite resp = transfer_isBite tp"
  proof (cases "fst (transfer lib wp net tp st)")
    case (Inl e)
    then show ?thesis by simp
  next
    case (Inr resp)
    then have "transfer lib wp net tp st = (Inr resp, snd (transfer lib wp net tp st))"
      by (metis prod.collapse)
    from transfer_echo[OF this] t(3) Inr show ?thesis by simp
  qed
  from eq s(1,2) s' t(1,2) t' show ?thesis by blast
qed

theorem encryption_decision_witness:
  "chains (example_wallet automatic) ''fair-testnet'' = Some DEFAULT_CHAIN_CONFIG \<and>
   swap_chainName
     \<lparr>swap_chainName = ''fair-testnet'', inputToken = ''FAIR'', outputToken = ''USDC'',
      swap_amount = ''1.0'', slippage = None, swap_isBite = Some False\<rparr> = ''fair-testnet'' \<and>
   transfer_chainName
     \<lparr>transfer_chainName = ''fair-testnet'', token = Some ''FAIR'',
      transfer_amount = Some ''1.0'',
      toAddress = Some (Addr ''0x2CE4EaF47CACFbC6590686f8f7521e0385822334''),
      transfer_data = None, transfer_isBite = Some False\<rparr> = ''fair-testnet'' \<and>
   follows_mode example_net (Some (rpc DEFAULT_CHAIN_CONFIG)) True
     [ReadContract ''fair-testnet'' (Addr ''0x4706C664ab84B7d6b9a7911cFB47b1f81335b208'')
        ''decimals'',
      ReadContract ''fair-testnet'' (Addr ''0x389E0Ec8a0226E96528761b5954830727d892117'')
        ''decimals'',
      ReadContract ''fair-testnet'' (Addr ''0x05BD86b5e9A6a8E838ef50cAEB96a502271349D0'')
        ''getAmountsOut'',
      EncryptTx (Some ''https://testnet-v1.skalenodes.com/v1/idealistic-dual-miram'')
        \<lparr>to = Addr ''0x05BD86b5e9A6a8E838ef50cAEB96a502271349D0'',
         data = Some (SwapExactETHForTokens 497500000000000000
           [''0x4706C664ab84B7d6b9a7911cFB47b1f81335b208'',
            ''0x389E0Ec8a0226E96528761b5954830727d892117'']
           ''0x742d35Cc6634C0532925a3b844Bc454e4438f44e'' 1700000300)\<rparr>,
      WalletSend
        \<lparr>tx_to = Addr ''0x05BD86b5e9A6a8E838ef50cAEB96a502271349D0'',
         tx_data = Some (SwapExactETHForTokens 497500000000000000
           [''0x4706C664ab84B7d6b9a7911cFB47b1f81335b208'',
            ''0x389E0Ec8a0226E96528761b5954830727d892117'']
           ''0x742d35Cc6634C0532925a3b844Bc454e4438f44e'' 1700000300),
         tx_value = 1000000000000000000, tx_gas = 1000000, tx_gasPrice = 1000000,
         tx_chainId = ''1328435889''\<rparr>
        \<lparr>to = Addr ''0x0000000000000000000000000000000000000401'',
         data = Some (Hex ''0xencrypted_data'')\<rparr>,
      WaitForReceipt ''fair-testnet'' (Some example_hash)] \<and>
   follows_mode example_net (Some (rpc DEFAULT_CHAIN_CONFIG)) True
     [EncryptTx (Some ''https://testnet-v1.skalenodes.com/v1/idealistic-dual-miram'')
        \<lparr>to = Promise ''0x2CE4EaF47CACFbC6590686f8f7521e0385822334'', data = None\<rparr>,
      WalletSend
        \<lparr>tx_to = Promise ''0x2CE4EaF47CACFbC6590686f8f7521e0385822334'', tx_data = None,
         tx_value = 1000000000000000000, tx_gas = 1000000, tx_gasPrice = 1000000,
         tx_chainId = ''1328435889''\<rparr>
        \<lparr>to = Addr ''0x0000000000000000000000000000000000000401'',
         data = Some (Hex ''0xencrypted_data'')\<rparr>] \<and>
   sr_isBite
     \<lparr>sr_chainName = ''fair-testnet'', sr_txHash = Some example_hash,
      sr_inputToken = ''FAIR'', sr_outputToken = ''USDC'', sr_amountIn = ''1.0'',
      sr_amountOut = ''0.5'', sr_isBite = Some False\<rparr> = Some False \<and>
   calls (snd (sendTransaction example_lib (example_wallet automatic) example_net
                 ''fair-testnet''
                 (approve_tx example_lib DEFAULT_CHAIN_CONFIG
                    (Addr ''0x389E0Ec8a0226E96528761b5954830727d892117'')
                    ''0x05BD86b5e9A6a8E838ef50cAEB96a502271349D0'' 1)
                 (Some False) example_chain))
   = [EncryptTx (Some ''https://testnet-v1.skalenodes.com/v1/idealistic-dual-miram'')
        \<lparr>to = Addr ''0x389E0Ec8a0226E96528761b5954830727d892117'',
         data = Some (Erc20_approve ''0x05BD86b5e9A6a8E838ef50cAEB96a502271349D0'' 1)\<rparr>,
      WalletSend
        (approve_tx example_lib DEFAULT_CHAIN_CONFIG
           (Addr ''0x389E0Ec8a0226E96528761b5954830727d892117'')
           ''0x05BD86b5e9A6a8E838ef50cAEB96a502271349D0'' 1)
        \<lparr>to = Addr ''0x0000000000000000000000000000000000000401'',
         data = Some (Hex ''0xencrypted_data'')\<rparr>]"
proof -
  let ?p = "\<lparr>swap_chainName = ''fair-testnet'', inputToken = ''FAIR'', outputToken = ''USDC'',
      swap_amount = ''1.0'', slippage = None, swap_isBite = Some False\<rparr>"
  let ?tp = "\<lparr>transfer_chainName = ''fair-testnet'', token = Some ''FAIR'',
      transfer_amount = Some ''1.0'',
      toAddress = Some (Addr ''0x2CE4EaF47CACFbC6590686f8f7521e0385822334''),
      transfer_data = None, transfer_isBite = Some False\<rparr>"
  let ?tx = "approve_tx example_lib DEFAULT_CHAIN_CONFIG
               (Addr ''0x389E0Ec8a0226E96528761b5954830727d892117'')
               ''0x05BD86b5e9A6a8E838ef50cAEB96a502271349D0'' 1"
  have m: "biteConfig (example_wallet automatic) = automatic"
    by (simp add: example_wallet_def)
  have e: "calls example_chain = []"
    by (simp add: example_chain_def)
  have hp: "swap_chainName ?p = ''fair-testnet''"
    and ht: "transfer_chainName ?tp = ''fair-testnet''"
    by simp_all
  note d = encryption_decision[OF example_chain_registered hp ht,
      where lib = example_lib and net = example_net and st = example_chain
        and tx = ?tx and isBite = "Some False" and st0 = example_chain]
  from d obtain new where
    "calls (snd (swap example_lib (example_wallet automatic) example_net ?p example_chain))
       = calls example_chain @ new"
    "follows_mode example_net (Some (rpc DEFAULT_CHAIN_CONFIG))
       (biteConfig (example_wallet automatic) = automatic \<or> swap_isBite ?p = Some True) new"
    by blast
  then have sw: "follows_mode example_net (Some (rpc DEFAULT_CHAIN_CONFIG)) True
                   (calls (snd (swap example_lib (example_wallet automatic) example_net ?p
                      example_chain)))"
    by (simp add: m e)
  from d obtain new' where
    "calls (snd (transfer example_lib (example_wallet automatic) example_net ?tp example_chain))
       = calls example_chain @ new'"
    "follows_mode example_net (Some (rpc DEFAULT_CHAIN_CONFIG))
       (biteConfig (example_wallet automatic) = automatic \<or> transfer_isBite ?tp = Some True)
       new'"
    by blast
  then have tr: "follows_mode example_net (Some (rpc DEFAULT_CHAIN_CONFIG)) True
                   (calls (snd (transfer example_lib (example_wallet automatic) example_net ?tp
                      example_chain)))"
    by (simp add: m e)
  from d have "sendTransaction example_lib (example_wallet automatic) example_net
                 ''fair-testnet'' ?tx (Some False) example_chain
        = broadcast (example_wallet automatic) example_net ?tx
            \<lparr>to = Addr ''0x0000000000000000000000000000000000000401'',
             data = Some (Hex ''0xencrypted_data'')\<rparr>
            (example_chain\<lparr>calls := calls example_chain @
               [EncryptTx (Some (rpc DEFAULT_CHAIN_CONFIG)) (plain_of ?tx)]\<rparr>)"
    by (simp add: m example_net_def)
  then have se: "calls (snd (sendTransaction example_lib (example_wallet automatic) example_net
                   ''fair-testnet'' ?tx (Some False) example_chain))
        = [EncryptTx (Some (rpc DEFAULT_CHAIN_CONFIG)) (plain_of ?tx),
           WalletSend ?tx \<lparr>to = Addr ''0x0000000000000000000000000000000000000401'',
                            data = Some (Hex ''0xencrypted_data'')\<rparr>]"
    by (simp add: broadcast_calls e)
  have pl: "plain_of ?tx = \<lparr>to = Addr ''0x389E0Ec8a0226E96528761b5954830727d892117'',
              data = Some (Erc20_approve ''0x05BD86b5e9A6a8E838ef50cAEB96a502271349D0'' 1)\<rparr>"
    by (simp add: plain_of_def approve_tx_def)
  have rp: "rpc DEFAULT_CHAIN_CONFIG
              = ''https://testnet-v1.skalenodes.com/v1/idealistic-dual-miram''"
    by (simp add: DEFAULT_CHAIN_CONFIG_def)
  show ?thesis
    using sw tr se
    unfolding example_swap_automatic example_transfer_automatic pl
    by (simp add: example_chain_registered rp)
qed

end
